theory Spec2Isabelle
  imports Complex_Main
begin

section \<open>Screencast Keys: the status operator of screencastkeys/ops.py\<close>

text \<open>
  A shallow embedding of the class \<open>ScreencastKeysStatus\<close> and of the module functions it
  calls. Conventions of the embedding:

  \<^item> A Python exception is a value of \<open>error\<close>; a function that can raise returns
    \<open>error + 'a\<close>, with \<open>Inl\<close> for the exception.
  \<^item> The class attributes that the operator mutates in place (histories, registries, the
    tracked regions, the origin, the running flag) are the fields of the record \<open>state\<close>.
    A method that mutates them and can raise returns the state reached together with its
    result, because the mutations made before a \<open>raise\<close> stay visible on the class.
  \<^item> Calls into the host that only have an effect (\<open>tag_redraw\<close>, adding and removing
    timers and draw handlers) are appended to the field \<open>host_log\<close> of the state.
  \<^item> A member of the runtime enumeration \<open>EventType\<close> is represented by its identifier; the
    host catalogue it is built from (\<open>event_type_enum_items\<close>) is a parameter, held in the
    record \<open>host\<close>, which also holds the other host functions that are not part of the
    repository (text measurement, translation, the table of space types).
  \<^item> Pointers (\<open>as_pointer()\<close>) are natural numbers. Coordinates, sizes and times are reals:
    the host's integers embed into them, and floating-point rounding is not modelled.
  \<^item> \<open>time.time()\<close> is read from the context. A function that reads the clock once reads
    the field \<open>c_time\<close>. \<open>modal\<close> reads it three times for one event: on line 746
    (\<open>c_time\<close>), in the pruning called on line 770 (\<open>c_time_prune\<close>), and in the pruning
    inside \<open>calc_draw_area_rect\<close> when it redraws (\<open>c_time_draw\<close>); the two later calls are
    made with a context whose \<open>c_time\<close> is the later reading.
\<close>

datatype error = KeyError | AttributeError | AssertionError | ValueError | IndexError

type_synonym EventType = string

text \<open>An entry of \<open>event_history\<close>: \<open>[time, event_type, modifier, repeat]\<close>.\<close>

type_synonym event_item = "real \<times> EventType \<times> EventType list \<times> int"

text \<open>An entry of \<open>operator_history\<close>: \<open>[time, bl_label, idname_py, addr]\<close>.\<close>

type_synonym operator_item = "real \<times> string \<times> string \<times> nat"

record region =
  r_ptr :: nat
  r_type :: string
  r_x :: real
  r_y :: real
  r_width :: real
  r_height :: real

record area =
  a_ptr :: nat
  a_type :: string
  a_x :: real
  a_y :: real
  a_width :: real
  a_height :: real
  a_regions :: "region list"
  a_spaces :: "nat list"
  a_spaces_active :: nat

record window =
  w_ptr :: nat
  w_screen_areas :: "area list"

record operator =
  bl_label :: string
  bl_idname :: string
  op_ptr :: nat

record event =
  ev_type :: string
  ev_value :: string
  ev_shift :: bool
  ev_ctrl :: bool
  ev_alt :: bool
  ev_oskey :: bool

record prefs =
  display_time :: real
  p_origin :: string
  p_offset :: "real \<times> real"
  show_mouse_events :: bool
  show_last_operator :: bool

record "context" =
  c_windows :: "window list"
  c_operators :: "operator list"
  c_screen_areas :: "area list"
  c_window :: window
  c_area :: area
  c_region :: region
  c_space_data :: nat
  c_prefs :: prefs
  c_use_region_overlap :: bool
  c_time :: real
  c_time_prune :: real
  c_time_draw :: real

record host =
  event_type_enum_items :: "(string \<times> string) list"
  blf_dimensions :: "string \<Rightarrow> real \<times> real"
  pgettext :: "string \<Rightarrow> string"
  SPACE_TYPES :: "string \<rightharpoonup> string"

datatype timer = Timer nat

datatype handle = Handle string string

datatype host_call =
    RegionTagRedraw nat
  | AreaTagRedraw nat
  | DrawHandlerAdd string string
  | DrawHandlerRemove string handle string
  | EventTimerAdd nat
  | EventTimerRemove timer
  | ModalHandlerAdd

record origin =
  o_window :: "nat option"
  o_area :: "nat option"
  o_space :: "nat option"
  o_region_type :: string

record state =
  hold_modifier_keys :: "EventType list"
  event_history :: "event_item list"
  operator_history :: "operator_item list"
  prev_time :: real
  timers :: "nat \<rightharpoonup> timer"
  handlers :: "((string \<times> string) \<times> handle) list"
  draw_regions_prev :: "nat set"
  st_origin :: origin
  area_spaces :: "nat \<rightharpoonup> nat set"
  running :: bool
  host_log :: "host_call list"

datatype retval = FINISHED | PASS_THROUGH | CANCELLED | RUNNING_MODAL

subsection \<open>The enumeration \<open>EventType\<close>\<close>

text \<open>\<open>EventType[s]\<close>: the member named \<open>s\<close>, or \<open>KeyError\<close>.\<close>

definition EventType_getitem :: "host \<Rightarrow> string \<Rightarrow> error + EventType" where
  "EventType_getitem h s =
     (if s \<in> set (map fst (event_type_enum_items h)) then Inr s else Inl KeyError)"

text \<open>\<open>mod.names[mod.name]\<close>: the display name of a member.\<close>

definition EventType_names :: "host \<Rightarrow> EventType \<Rightarrow> error + string" where
  "EventType_names h et =
     (case map_of (event_type_enum_items h) et of None \<Rightarrow> Inl KeyError | Some n \<Rightarrow> Inr n)"

definition MODIFIER_EVENT_TYPES :: "EventType list" where
  "MODIFIER_EVENT_TYPES =
     [''LEFT_SHIFT'', ''RIGHT_SHIFT'', ''LEFT_CTRL'', ''RIGHT_CTRL'',
      ''LEFT_ALT'', ''RIGHT_ALT'', ''OSKEY'']"

definition MOUSE_EVENT_TYPES :: "EventType set" where
  "MOUSE_EVENT_TYPES =
     {''LEFTMOUSE'', ''MIDDLEMOUSE'', ''RIGHTMOUSE'', ''BUTTON4MOUSE'', ''BUTTON5MOUSE'',
      ''BUTTON6MOUSE'', ''BUTTON7MOUSE'', ''TRACKPADPAN'', ''TRACKPADZOOM'', ''MOUSEROTATE'',
      ''WHEELUPMOUSE'', ''WHEELDOWNMOUSE'', ''WHEELINMOUSE'', ''WHEELOUTMOUSE''}"

subsection \<open>Strings\<close>

definition startswith :: "string \<Rightarrow> string \<Rightarrow> bool" where
  "startswith s p = (take (length p) s = p)"

text \<open>\<open>re.sub('(Left |Right )', '', name)\<close>: every occurrence is removed, left to right.\<close>

fun remove_left_right :: "string \<Rightarrow> string" where
  "remove_left_right [] = []"
| "remove_left_right (c # cs) =
     (if startswith (c # cs) ''Left '' then remove_left_right (drop 4 cs)
      else if startswith (c # cs) ''Right '' then remove_left_right (drop 5 cs)
      else c # remove_left_right cs)"

text \<open>\<open>sep.join(xs)\<close>.\<close>

fun join :: "string \<Rightarrow> string list \<Rightarrow> string" where
  "join sep [] = []"
| "join sep [x] = x"
| "join sep (x # y # ys) = x @ sep @ join sep (y # ys)"

subsection \<open>\<open>sorted_modifier_keys\<close>\<close>

fun list_index :: "'a list \<Rightarrow> 'a \<Rightarrow> nat" where
  "list_index [] x = 0"
| "list_index (y # ys) x = (if x = y then 0 else Suc (list_index ys x))"

definition key_fn :: "EventType \<Rightarrow> nat" where
  "key_fn event_type =
     (if event_type \<in> set MODIFIER_EVENT_TYPES then list_index MODIFIER_EVENT_TYPES event_type
      else 100)"

text \<open>
  The loop over the sorted modifiers, with the list \<open>names\<close> built so far. The display name is
  looked up before the assertion is checked, as in the source.
\<close>

fun sorted_modifier_keys_loop :: "host \<Rightarrow> EventType list \<Rightarrow> string list \<Rightarrow> error + string list" where
  "sorted_modifier_keys_loop h [] names = Inr names"
| "sorted_modifier_keys_loop h (m # ms) names =
     (case EventType_names h m of
        Inl e \<Rightarrow> Inl e
      | Inr name \<Rightarrow>
          if m \<notin> set MODIFIER_EVENT_TYPES then Inl AssertionError
          else let name' = remove_left_right name
               in sorted_modifier_keys_loop h ms
                    (if name' \<notin> set names then names @ [name'] else names))"

definition sorted_modifier_keys :: "host \<Rightarrow> EventType list \<Rightarrow> error + string list" where
  "sorted_modifier_keys h modifiers = sorted_modifier_keys_loop h (sort_key key_fn modifiers) []"

subsection \<open>\<open>removed_old_event_history\<close> and \<open>removed_old_operator_history\<close>\<close>

definition removed_old_event_history :: "context \<Rightarrow> state \<Rightarrow> event_item list" where
  "removed_old_event_history ctx st =
     filter (\<lambda>item. c_time ctx - fst item \<le> display_time (c_prefs ctx)) (event_history st)"

definition removed_old_operator_history :: "state \<Rightarrow> operator_item list" where
  "removed_old_operator_history st =
     drop (length (operator_history st) - 32) (operator_history st)"

subsection \<open>Geometry\<close>

text \<open>
  \<open>intersect_aabb\<close> indexes its four arguments up to the length of the first one; the
  second comparison of an axis is evaluated only when the first one is false.
\<close>

fun intersect_aabb :: "real list \<Rightarrow> real list \<Rightarrow> real list \<Rightarrow> real list \<Rightarrow> error + bool" where
  "intersect_aabb [] max1 min2 max2 = Inr True"
| "intersect_aabb (a # min1) max1 min2 max2 =
     (case (max1, min2) of
        (b # max1', c # min2') \<Rightarrow>
          if b < c then Inr False
          else (case max2 of
                  d # max2' \<Rightarrow>
                    if d < a then Inr False else intersect_aabb min1 max1' min2' max2'
                | [] \<Rightarrow> Inl IndexError)
      | _ \<Rightarrow> Inl IndexError)"

definition get_window_region_rect :: "area \<Rightarrow> real \<times> real \<times> real \<times> real" where
  "get_window_region_rect area =
     fold (\<lambda>region (r0, r1, r2, r3).
             if r_type region = ''WINDOW''
             then (min r0 (r_x region), min r1 (r_y region),
                   max (r_x region + r_width region - 1) r2,
                   max (r_y region + r_height region - 1) r3)
             else (r0, r1, r2, r3))
          (a_regions area) (99999, 99999, 0, 0)"

text \<open>The loop of \<open>get_region_rect_on_v3d\<close> that looks for the TOOLS and UI regions.\<close>

definition find_tools_ui :: "area \<Rightarrow> region option \<times> region option" where
  "find_tools_ui area =
     fold (\<lambda>ar (tools, ui).
             if r_width ar > 1 then
               (if r_type ar = ''WINDOW'' then (tools, ui)
                else if r_type ar = ''TOOLS'' then (Some ar, ui)
                else if r_type ar = ''UI'' then (tools, Some ar)
                else (tools, ui))
             else (tools, ui))
          (a_regions area) (None, None)"

text \<open>The widths \<open>(left_width, right_width)\<close> taken by the overlapping regions.\<close>

definition overlap_widths :: "area \<Rightarrow> region option \<Rightarrow> region option \<Rightarrow> real \<times> real" where
  "overlap_widths area tools ui =
     (case (tools, ui) of
        (Some t, Some u) \<Rightarrow>
          (let (r1, r2) = (if r_x t \<le> r_x u then (t, u) else (u, t))
           in if r_x r1 = a_x area then
                (if r_x r2 = r_x r1 + r_width r1 then (r_width r1 + r_width r2, 0)
                 else (r_width r1, r_width r2))
              else (0, r_width r1 + r_width r2))
      | (Some t, None) \<Rightarrow> (if r_x t = a_x area then (r_width t, 0) else (0, r_width t))
      | (None, Some u) \<Rightarrow> (if r_x u = a_x area then (r_width u, 0) else (0, r_width u))
      | (None, None) \<Rightarrow> (0, 0))"

definition get_region_rect_on_v3d :: "context \<Rightarrow> area \<Rightarrow> region \<Rightarrow> real \<times> real \<times> real \<times> real" where
  "get_region_rect_on_v3d ctx area region =
     (if r_type region \<noteq> ''WINDOW''
      then (r_x region, r_y region, r_x region + r_width region, r_y region + r_height region)
      else
        let (tools, ui) = find_tools_ui area;
            (xmin, _, xmax, _) = get_window_region_rect area;
            (xmin', xmax') =
              (if c_use_region_overlap ctx then
                 (let (left_width, right_width) = overlap_widths area tools ui
                  in (max xmin (a_x area + left_width),
                      min xmax (a_x area + a_width area - right_width - 1)))
               else (xmin, xmax))
        in (xmin', r_y region, xmax', r_y region + r_height region - 1))"

subsection \<open>\<open>get_origin\<close>\<close>

text \<open>
  \<open>is_area_match\<close>. In its last branch \<open>area_p\<close> is the integer \<open>area.as_pointer()\<close>, so when
  that pointer is a key of \<open>area_spaces\<close> the expression \<open>area_p.spaces\<close> raises
  \<open>AttributeError\<close>. Testing membership in the \<open>defaultdict\<close> adds no key.
\<close>

definition is_area_match :: "state \<Rightarrow> area \<Rightarrow> error + bool" where
  "is_area_match st area =
     (if Some (a_ptr area) = o_area (st_origin st) then Inr True
      else if Some (a_spaces_active area) = o_space (st_origin st) then Inr True
      else if area_spaces st (a_ptr area) \<noteq> None then Inl AttributeError
      else Inr False)"

type_synonym origin_result = "window option \<times> area option \<times> region option \<times> real \<times> real"

fun get_origin_area :: "state \<Rightarrow> window \<Rightarrow> real \<Rightarrow> real \<Rightarrow> area list \<Rightarrow> error + origin_result" where
  "get_origin_area st window x y [] = Inr (None, None, None, 0, 0)"
| "get_origin_area st window x y (area # areas) =
     (case is_area_match st area of
        Inl e \<Rightarrow> Inl e
      | Inr True \<Rightarrow> Inr (Some window, Some area, None, x + a_x area, y + a_y area)
      | Inr False \<Rightarrow> get_origin_area st window x y areas)"

fun get_origin_region :: "context \<Rightarrow> state \<Rightarrow> window \<Rightarrow> real \<Rightarrow> real \<Rightarrow> area list \<Rightarrow> error + origin_result" where
  "get_origin_region ctx st window x y [] = Inr (None, None, None, 0, 0)"
| "get_origin_region ctx st window x y (area # areas) =
     (case is_area_match st area of
        Inl e \<Rightarrow> Inl e
      | Inr False \<Rightarrow> get_origin_region ctx st window x y areas
      | Inr True \<Rightarrow>
          (case find (\<lambda>region. r_type region = o_region_type (st_origin st)) (a_regions area) of
             Some region \<Rightarrow>
               (if a_type area = ''VIEW_3D''
                then (let (rect0, rect1, _, _) = get_region_rect_on_v3d ctx area region
                      in Inr (Some window, Some area, Some region, x + rect0, y + rect1))
                else Inr (Some window, Some area, Some region, x + r_x region, y + r_y region))
           | None \<Rightarrow> get_origin_region ctx st window x y areas))"

definition get_origin :: "context \<Rightarrow> state \<Rightarrow> error + origin_result" where
  "get_origin ctx st =
     (let prefs = c_prefs ctx; (x, y) = p_offset prefs
      in case find (\<lambda>window. Some (w_ptr window) = o_window (st_origin st)) (c_windows ctx) of
           None \<Rightarrow> Inr (None, None, None, 0, 0)
         | Some window \<Rightarrow>
             if p_origin prefs = ''WINDOW'' then Inr (Some window, None, None, x, y)
             else if p_origin prefs = ''AREA''
               then get_origin_area st window x y (w_screen_areas window)
             else if p_origin prefs = ''REGION''
               then get_origin_region ctx st window x y (w_screen_areas window)
             else Inr (None, None, None, 0, 0))"

subsection \<open>\<open>calc_draw_area_rect\<close>\<close>

text \<open>
  The numeric attributes the class body defines. \<open>prev_time\<close> is the third one; it is
  assigned at run time and is a field of the state.
\<close>

definition HEIGHT_RATIO_FOR_SEPARATOR :: real where
  "HEIGHT_RATIO_FOR_SEPARATOR = 0.6"

definition TIMER_STEP :: real where
  "TIMER_STEP = 0.1"

definition class_attributes :: "(string \<times> real) list" where
  "class_attributes =
     [(''HEIGHT_RATIO_FOR_SEPARATOR'', HEIGHT_RATIO_FOR_SEPARATOR), (''TIMER_STEP'', TIMER_STEP)]"

text \<open>\<open>cls.<name>\<close> for a numeric attribute: \<open>AttributeError\<close> when the class has none of that name.\<close>

definition cls_getattr :: "string \<Rightarrow> error + real" where
  "cls_getattr name =
     (case map_of class_attributes name of None \<Rightarrow> Inl AttributeError | Some v \<Rightarrow> Inr v)"

definition string_printable :: string where
  "string_printable =
     ''0123456789'' @ ''abcdefghijklmnopqrstuvwxyz'' @ ''ABCDEFGHIJKLMNOPQRSTUVWXYZ'' @
     map char_of ([33..<48] @ [58..<65] @ [91..<97] @ [123..<127] @ [32, 9, 10, 13, 11, 12 :: nat])"

text \<open>\<open>str(n)\<close> for an integer.\<close>

fun str_nat :: "nat \<Rightarrow> string" where
  "str_nat n =
     (if n < 10 then [char_of (48 + n)] else str_nat (n div 10) @ [char_of (48 + n mod 10)])"

definition str_int :: "int \<Rightarrow> string" where
  "str_int i = (if i < 0 then ''-'' @ str_nat (nat (- i)) else str_nat (nat i))"

definition ebind :: "error + 'a \<Rightarrow> ('a \<Rightarrow> error + 'b) \<Rightarrow> error + 'b" where
  "ebind m f = (case m of Inl e \<Rightarrow> Inl e | Inr v \<Rightarrow> f v)"

text \<open>The text of one event-history line.\<close>

definition event_text :: "host \<Rightarrow> event_item \<Rightarrow> error + string" where
  "event_text h item =
     (let (_, event_type, modifiers, count) = item
      in ebind (EventType_names h event_type) (\<lambda>text.
         ebind (if modifiers \<noteq> []
                then ebind (sorted_modifier_keys h modifiers)
                       (\<lambda>mod_names. Inr (join '' + '' mod_names @ '' + '' @ text))
                else Inr text) (\<lambda>text.
         Inr (if count > 1 then text @ '' x'' @ str_int count else text))))"

text \<open>The loop over the reversed event history, accumulating width and height.\<close>

fun calc_event_lines :: "host \<Rightarrow> real \<Rightarrow> event_item list \<Rightarrow> real \<times> real \<Rightarrow> error + real \<times> real" where
  "calc_event_lines h sh [] (w, ht) = Inr (w, ht)"
| "calc_event_lines h sh (item # items) (w, ht) =
     (case event_text h item of
        Inl e \<Rightarrow> Inl e
      | Inr text \<Rightarrow>
          calc_event_lines h sh items (max w (fst (blf_dimensions h text)), ht + sh))"

definition calc_draw_area_rect :: "host \<Rightarrow> context \<Rightarrow> state \<Rightarrow> error + (real \<times> real \<times> real \<times> real) option" where
  "calc_draw_area_rect h ctx st =
     (let prefs = c_prefs ctx;
          sh = snd (blf_dimensions h string_printable)
      in ebind (get_origin ctx st) (\<lambda>(window, area, region, x, y).
         if window = None then Inr None
         else
         ebind (if show_last_operator prefs then
                  (let operator_history = removed_old_operator_history st;
                       w = (if operator_history \<noteq> [] then
                              (let (_, name, idname_py, _) = last operator_history;
                                   text = pgettext h name @ '' ('' @ [CHR 0x27] @ idname_py
                                            @ [CHR 0x27] @ '')''
                               in max 0 (fst (blf_dimensions h text)))
                            else 0)
                   in ebind (cls_getattr ''SEPARATOR_HEIGHT'') (\<lambda>sep. Inr (w, 0 + (sh + sh * sep))))
                else Inr (0, 0)) (\<lambda>(w1, h1).
         ebind (if hold_modifier_keys st \<noteq> [] then
                  ebind (sorted_modifier_keys h (hold_modifier_keys st)) (\<lambda>mod_names.
                    Inr (max w1 (fst (blf_dimensions h (join '' + '' mod_names))), h1 + sh))
                else Inr (w1, h1)) (\<lambda>(w2, h2).
         let event_history = removed_old_event_history ctx st
         in
         ebind (if hold_modifier_keys st \<noteq> [] \<or> event_history \<noteq> [] then
                  ebind (cls_getattr ''SEPARATOR_HEIGHT'') (\<lambda>sep.
                    Inr (max w2 (fst (blf_dimensions h ''Left Mouse'')), h2 + sh * sep))
                else Inr (w2, h2)) (\<lambda>(w3, h3).
         ebind (calc_event_lines h sh (rev event_history) (w3, h3)) (\<lambda>(draw_area_width, h4).
         let draw_area_height = h4 + sh
         in
         if p_origin prefs = ''WINDOW'' then
           Inr (Some (x, y, x + draw_area_width, y + draw_area_height))
         else if p_origin prefs = ''AREA'' then
           (case area of
              None \<Rightarrow> Inl AttributeError
            | Some a \<Rightarrow>
                Inr (Some (max x (a_x a), max y (a_y a),
                           min (x + draw_area_width) (a_x a + a_width a - 1),
                           min (y + draw_area_height) (a_y a + a_height a - 1))))
         else if p_origin prefs = ''REGION'' then
           (case region of
              None \<Rightarrow> Inl AttributeError
            | Some r \<Rightarrow>
                Inr (Some (max x (r_x r), max y (r_y r),
                           min (x + draw_area_width) (r_x r + r_width r - 1),
                           min (y + draw_area_height) (r_y r + r_height r - 1))))
         else Inl AssertionError))))))"

subsection \<open>\<open>find_redraw_regions\<close>\<close>

text \<open>The test applied to one region, on the two-element lists the source builds.\<close>

definition region_overlaps :: "real list \<Rightarrow> real list \<Rightarrow> region \<Rightarrow> bool" where
  "region_overlaps draw_area_min draw_area_max region =
     (intersect_aabb [r_x region, r_y region]
        [r_x region + r_width region - 1, r_y region + r_height region - 1]
        draw_area_min draw_area_max = Inr True)"

text \<open>The body of \<open>find_redraw_regions\<close> once the rectangle has been computed.\<close>

definition collect_regions :: "context \<Rightarrow> (real \<times> real \<times> real \<times> real) option \<Rightarrow> (area \<times> region) list" where
  "collect_regions ctx rect =
     (case rect of
        None \<Rightarrow> []
      | Some (draw_area_min_x, draw_area_min_y, draw_area_max_x, draw_area_max_y) \<Rightarrow>
          let width = draw_area_max_x - draw_area_min_x;
              height = draw_area_max_y - draw_area_min_y
          in if width = height \<and> height = 0 then []
             else
               let draw_area_min = [draw_area_min_x, draw_area_min_y];
                   draw_area_max = [draw_area_max_x - 1, draw_area_max_y - 1]
               in concat (map (\<lambda>area.
                    map (\<lambda>region. (area, region))
                      (filter (\<lambda>region. r_type region \<noteq> [] \<and>
                                 region_overlaps draw_area_min draw_area_max region)
                         (a_regions area)))
                    (c_screen_areas ctx)))"

definition find_redraw_regions :: "host \<Rightarrow> context \<Rightarrow> state \<Rightarrow> error + (area \<times> region) list" where
  "find_redraw_regions h ctx st =
     ebind (calc_draw_area_rect h ctx st) (\<lambda>rect. Inr (collect_regions ctx rect))"

subsection \<open>Classifying events\<close>

text \<open>
  \<open>update_hold_modifier_keys\<close> clears the list before it looks the event type up, so the
  list stays cleared when the lookup raises.
\<close>

definition update_hold_modifier_keys :: "host \<Rightarrow> event \<Rightarrow> state \<Rightarrow> state \<times> (error + unit)" where
  "update_hold_modifier_keys h event st =
     (let st1 = st\<lparr>hold_modifier_keys := []\<rparr>;
          mod_keys = (if ev_shift event then [''LEFT_SHIFT''] else [])
                   @ (if ev_oskey event then [''OSKEY''] else [])
                   @ (if ev_alt event then [''LEFT_ALT''] else [])
                   @ (if ev_ctrl event then [''LEFT_CTRL''] else [])
      in case EventType_getitem h (ev_type event) of
           Inl e \<Rightarrow> (st1, Inl e)
         | Inr event_type \<Rightarrow>
             (let mod_keys' = (if event_type = ''WINDOW_DEACTIVATE'' then [] else mod_keys)
              in (st1\<lparr>hold_modifier_keys := hold_modifier_keys st1 @ mod_keys'\<rparr>, Inr ())))"

text \<open>\<open>is_ignore_event\<close> returns \<open>True\<close> or falls off its end (\<open>None\<close>, which is false).\<close>

definition is_ignore_event :: "host \<Rightarrow> event \<Rightarrow> prefs option \<Rightarrow> error + bool" where
  "is_ignore_event h event prefs =
     ebind (EventType_getitem h (ev_type event)) (\<lambda>event_type.
       Inr (if event_type \<in> {''NONE'', ''MOUSEMOVE'', ''INBETWEEN_MOUSEMOVE'',
                              ''WINDOW_DEACTIVATE'', ''TEXTINPUT''} then True
            else if (case prefs of None \<Rightarrow> False
                     | Some p \<Rightarrow> \<not> show_mouse_events p \<and> event_type \<in> MOUSE_EVENT_TYPES)
              then True
            else if startswith event_type ''EVT_TWEAK'' then True
            else if startswith event_type ''TIMER'' then True
            else False))"

definition is_modifier_event :: "host \<Rightarrow> event \<Rightarrow> error + bool" where
  "is_modifier_event h event =
     ebind (EventType_getitem h (ev_type event)) (\<lambda>event_type.
       Inr (event_type \<in> set MODIFIER_EVENT_TYPES))"

subsection \<open>\<open>modal\<close>\<close>

text \<open>Lines 749 to 751: every space of every area of the screen is recorded.\<close>

definition add_space :: "area \<Rightarrow> nat \<Rightarrow> state \<Rightarrow> state" where
  "add_space area space st =
     st\<lparr>area_spaces :=
          (area_spaces st)(a_ptr area \<mapsto>
             insert space (case area_spaces st (a_ptr area) of None \<Rightarrow> {} | Some S \<Rightarrow> S))\<rparr>"

definition update_area_spaces :: "context \<Rightarrow> state \<Rightarrow> state" where
  "update_area_spaces ctx st =
     fold (\<lambda>area. fold (add_space area) (a_spaces area)) (c_screen_areas ctx) st"

text \<open>Lines 755 to 757: the snapshot of the held modifiers, without the event's own type.\<close>

definition current_mod_of :: "EventType \<Rightarrow> state \<Rightarrow> EventType list" where
  "current_mod_of event_type st =
     (let current_mod = hold_modifier_keys st
      in if event_type \<in> set current_mod then remove1 event_type current_mod else current_mod)"

text \<open>Lines 762 to 769: the last entry is updated in place, or a new entry is appended.\<close>

definition append_event :: "real \<Rightarrow> real \<Rightarrow> EventType \<Rightarrow> EventType list \<Rightarrow> event_item list \<Rightarrow> event_item list" where
  "append_event current_time d event_type current_mod history =
     (case (if history \<noteq> [] then Some (last history) else None) of
        Some (last_time, last_type, last_mod, last_count) \<Rightarrow>
          if (last_type, last_mod) = (event_type, current_mod) \<and> current_time - last_time < d
          then butlast history @ [(current_time, last_type, last_mod, last_count + 1)]
          else history @ [(current_time, event_type, current_mod, 1)]
      | None \<Rightarrow> history @ [(current_time, event_type, current_mod, 1)])"

text \<open>
  Lines 759 to 770: the event is recorded when it is a press to show, then old entries go.
  The new entry carries the clock reading of line 746; the pruning reads the clock again.
\<close>

definition modal_event_history :: "host \<Rightarrow> context \<Rightarrow> event \<Rightarrow> EventType \<Rightarrow> state \<Rightarrow> state \<times> (error + unit)" where
  "modal_event_history h ctx event event_type st =
     (let prefs = c_prefs ctx;
          current_time = c_time ctx;
          current_mod = current_mod_of event_type st
      in case ebind (is_ignore_event h event (Some prefs)) (\<lambda>ign.
                if ign then Inr False
                else ebind (is_modifier_event h event) (\<lambda>m.
                       Inr (\<not> m \<and> ev_value event = ''PRESS''))) of
           Inl e \<Rightarrow> (st, Inl e)
         | Inr record \<Rightarrow>
             (let st1 = (if record
                         then st\<lparr>event_history :=
                                   append_event current_time (display_time prefs) event_type
                                     current_mod (event_history st)\<rparr>
                         else st)
              in (st1\<lparr>event_history :=
                        removed_old_event_history (ctx\<lparr>c_time := c_time_prune ctx\<rparr>) st1\<rparr>,
                  Inr ())))"

text \<open>\<open>s.split(sep)\<close> for a non-empty separator; the third argument is the piece being read.\<close>

fun split_str :: "string \<Rightarrow> string \<Rightarrow> string \<Rightarrow> string list" where
  "split_str sep [] cur = [cur]"
| "split_str sep (c # cs) cur =
     (if startswith (c # cs) sep then cur # split_str sep (drop (length sep - 1) cs) []
      else split_str sep cs (cur @ [c]))"

text \<open>\<open>str.lower()\<close> on the ASCII letters.\<close>

definition lower_char :: "char \<Rightarrow> char" where
  "lower_char c =
     (let n = of_char c :: nat in if 65 \<le> n \<and> n \<le> 90 then char_of (n + 32) else c)"

text \<open>Lines 780 to 784: the index after the last operator whose pointer is \<open>addr\<close>, or 0.\<close>

fun find_j :: "operator list \<Rightarrow> nat \<Rightarrow> nat \<Rightarrow> nat option \<Rightarrow> nat" where
  "find_j [] i n addr = 0"
| "find_j (op # ops) i n addr =
     (if Some (op_ptr op) = addr then n - i else find_j ops (Suc i) n addr)"

text \<open>Lines 786 to 790: unpacking the split raises \<open>ValueError\<close> unless there are two pieces.\<close>

fun append_operators :: "real \<Rightarrow> operator list \<Rightarrow> state \<Rightarrow> state \<times> (error + unit)" where
  "append_operators current_time [] st = (st, Inr ())"
| "append_operators current_time (op # ops) st =
     (case split_str ''_OT_'' (bl_idname op) [] of
        [m, f] \<Rightarrow>
          append_operators current_time ops
            (st\<lparr>operator_history := operator_history st @
                  [(current_time, bl_label op, map lower_char m @ ''.'' @ f, op_ptr op)]\<rparr>)
      | _ \<Rightarrow> (st, Inl ValueError))"

definition modal_operator_history :: "context \<Rightarrow> state \<Rightarrow> state \<times> (error + unit)" where
  "modal_operator_history ctx st =
     (let operators = c_operators ctx
      in case (if operators \<noteq> [] then
                 (let addr = (if operator_history st \<noteq> []
                              then Some (snd (snd (snd (last (operator_history st))))) else None);
                      j = find_j (rev operators) 0 (length operators) addr
                  in append_operators (c_time ctx) (drop j operators) st)
               else (st, Inr ())) of
           (st1, Inl e) \<Rightarrow> (st1, Inl e)
         | (st1, Inr _) \<Rightarrow> (st1\<lparr>operator_history := removed_old_operator_history st1\<rparr>, Inr ()))"

text \<open>Lines 802 to 805: a region that was drawn into is tagged and untracked.\<close>

definition untrack_region :: "region \<Rightarrow> state \<Rightarrow> state" where
  "untrack_region region st =
     (if r_ptr region \<in> draw_regions_prev st
      then st\<lparr>host_log := host_log st @ [RegionTagRedraw (r_ptr region)],
              draw_regions_prev := draw_regions_prev st - {r_ptr region}\<rparr>
      else st)"

text \<open>Lines 800 to 805: the loop over every region of every area of the screen.\<close>

definition redraw_prev :: "context \<Rightarrow> state \<Rightarrow> state" where
  "redraw_prev ctx st =
     fold (\<lambda>area. fold untrack_region (a_regions area)) (c_screen_areas ctx) st"

text \<open>
  Lines 811 to 817, for one region and the space type of its area: a handler is added unless
  there is one for the pair of space type and region type, the region is tagged and tracked.
\<close>

definition track_region :: "string \<Rightarrow> region \<Rightarrow> state \<Rightarrow> state" where
  "track_region space_type region st =
     (let h_key = (space_type, r_type region);
          st1 = (if h_key \<notin> set (map fst (handlers st))
                 then st\<lparr>handlers := handlers st @ [(h_key, Handle space_type (r_type region))],
                         host_log := host_log st @ [DrawHandlerAdd space_type (r_type region)]\<rparr>
                 else st)
      in st1\<lparr>host_log := host_log st1 @ [RegionTagRedraw (r_ptr region)],
              draw_regions_prev := insert (r_ptr region) (draw_regions_prev st1)\<rparr>)"

text \<open>Lines 809 to 817: the table of space types has no entry for an unknown area type.\<close>

fun redraw_regions :: "host \<Rightarrow> (area \<times> region) list \<Rightarrow> state \<Rightarrow> state \<times> (error + unit)" where
  "redraw_regions h [] st = (st, Inr ())"
| "redraw_regions h ((area, region) # regions) st =
     (case SPACE_TYPES h (a_type area) of
        None \<Rightarrow> (st, Inl KeyError)
      | Some space_type \<Rightarrow> redraw_regions h regions (track_region space_type region st))"

text \<open>Lines 799 to 819, for the list \<open>regions\<close> that \<open>find_redraw_regions\<close> returned.\<close>

definition modal_redraw :: "host \<Rightarrow> context \<Rightarrow> (area \<times> region) list \<Rightarrow> state \<Rightarrow> state \<times> (error + unit)" where
  "modal_redraw h ctx regions st =
     (case redraw_regions h regions (redraw_prev ctx st) of
        (st1, Inl e) \<Rightarrow> (st1, Inl e)
      | (st1, Inr _) \<Rightarrow> (st1\<lparr>prev_time := c_time ctx\<rparr>, Inr ()))"

text \<open>
  Lines 794 to 821. The pruning inside \<open>calc_draw_area_rect\<close> reads the clock once more.
\<close>

definition modal_redraw_step :: "host \<Rightarrow> context \<Rightarrow> event \<Rightarrow> state \<Rightarrow> state \<times> (error + retval)" where
  "modal_redraw_step h ctx event st =
     (case is_ignore_event h event (Some (c_prefs ctx)) of
        Inl e \<Rightarrow> (st, Inl e)
      | Inr ign \<Rightarrow>
          if \<not> ign \<or> (prev_time st \<noteq> 0 \<and> c_time ctx - prev_time st \<ge> TIMER_STEP) then
            (case find_redraw_regions h (ctx\<lparr>c_time := c_time_draw ctx\<rparr>) st of
               Inl e \<Rightarrow> (st, Inl e)
             | Inr regions \<Rightarrow>
                 (case modal_redraw h ctx regions st of
                    (st1, Inl e) \<Rightarrow> (st1, Inl e)
                  | (st1, Inr _) \<Rightarrow> (st1, Inr PASS_THROUGH)))
          else (st, Inr PASS_THROUGH))"

definition modal :: "host \<Rightarrow> context \<Rightarrow> event \<Rightarrow> state \<Rightarrow> state \<times> (error + retval)" where
  "modal h ctx event st =
     (if \<not> running st then (st, Inr FINISHED)
      else if ev_type event = [] then (st, Inr PASS_THROUGH)
      else
        case EventType_getitem h (ev_type event) of
          Inl e \<Rightarrow> (st, Inl e)
        | Inr event_type \<Rightarrow>
            (case update_hold_modifier_keys h event (update_area_spaces ctx st) of
               (st2, Inl e) \<Rightarrow> (st2, Inl e)
             | (st2, Inr _) \<Rightarrow>
                 (case modal_event_history h ctx event event_type st2 of
                    (st3, Inl e) \<Rightarrow> (st3, Inl e)
                  | (st3, Inr _) \<Rightarrow>
                      (case modal_operator_history ctx st3 of
                         (st4, Inl e) \<Rightarrow> (st4, Inl e)
                       | (st4, Inr _) \<Rightarrow> modal_redraw_step h ctx event st4))))"

subsection \<open>\<open>invoke\<close> and the registries\<close>

definition draw_handler_remove :: "state \<Rightarrow> state" where
  "draw_handler_remove st =
     st\<lparr>host_log := host_log st @
           map (\<lambda>((space_type, region_type), handle).
                  DrawHandlerRemove space_type handle region_type) (handlers st),
        handlers := []\<rparr>"

definition timer_add_window :: "window \<Rightarrow> state \<Rightarrow> state" where
  "timer_add_window win st =
     (if timers st (w_ptr win) = None
      then st\<lparr>timers := (timers st)(w_ptr win \<mapsto> Timer (w_ptr win)),
              host_log := host_log st @ [EventTimerAdd (w_ptr win)]\<rparr>
      else st)"

definition event_timer_add :: "context \<Rightarrow> state \<Rightarrow> state" where
  "event_timer_add ctx st = fold timer_add_window (c_windows ctx) st"

definition timer_remove_window :: "window \<Rightarrow> state \<Rightarrow> state" where
  "timer_remove_window win st =
     (case timers st (w_ptr win) of
        Some t \<Rightarrow> st\<lparr>host_log := host_log st @ [EventTimerRemove t]\<rparr>
      | None \<Rightarrow> st)"

definition event_timer_remove :: "context \<Rightarrow> state \<Rightarrow> state" where
  "event_timer_remove ctx st =
     (fold timer_remove_window (c_windows ctx) st)\<lparr>timers := Map.empty\<rparr>"

definition invoke :: "host \<Rightarrow> context \<Rightarrow> event \<Rightarrow> state \<Rightarrow> state \<times> (error + retval)" where
  "invoke h ctx event st =
     (if running st then
        (let st1 = event_timer_remove ctx st;
             st2 = draw_handler_remove st1;
             st3 = st2\<lparr>hold_modifier_keys := [], event_history := [], operator_history := [],
                       draw_regions_prev := {}\<rparr>;
             st4 = st3\<lparr>host_log := host_log st3 @ [AreaTagRedraw (a_ptr (c_area ctx))]\<rparr>
         in (st4\<lparr>running := False\<rparr>, Inr CANCELLED))
      else
        (case update_hold_modifier_keys h event st of
           (st1, Inl e) \<Rightarrow> (st1, Inl e)
         | (st1, Inr _) \<Rightarrow>
             (let st2 = event_timer_add ctx st1;
                  st3 = st2\<lparr>host_log := host_log st2 @ [ModalHandlerAdd]\<rparr>;
                  st4 = st3\<lparr>st_origin :=
                              \<lparr>o_window = Some (w_ptr (c_window ctx)),
                               o_area = Some (a_ptr (c_area ctx)),
                               o_space = Some (c_space_data ctx),
                               o_region_type = r_type (c_region ctx)\<rparr>\<rparr>;
                  st5 = st4\<lparr>host_log := host_log st4 @ [AreaTagRedraw (a_ptr (c_area ctx))]\<rparr>
              in (st5\<lparr>running := True\<rparr>, Inr RUNNING_MODAL))))"

text \<open>The values the class body gives the class attributes, with nothing logged yet.\<close>

definition initial_state :: state where
  "initial_state =
     \<lparr>hold_modifier_keys = [], event_history = [], operator_history = [], prev_time = 0,
      timers = Map.empty, handlers = [], draw_regions_prev = {},
      st_origin = \<lparr>o_window = None, o_area = None, o_space = None, o_region_type = []\<rparr>,
      area_spaces = Map.empty, running = False, host_log = []\<rparr>"

subsection \<open>A small host and screen for concrete evaluations\<close>

definition sample_items :: "(string \<times> string) list" where
  "sample_items =
     [(''NONE'', []), (''LEFTMOUSE'', ''Left Mouse''), (''MOUSEMOVE'', ''Mouse Move''),
      (''A'', ''A''), (''LEFT_SHIFT'', ''Left Shift''), (''RIGHT_SHIFT'', ''Right Shift''),
      (''LEFT_CTRL'', ''Left Ctrl''), (''RIGHT_CTRL'', ''Right Ctrl''),
      (''LEFT_ALT'', ''Left Alt''), (''RIGHT_ALT'', ''Right Alt''), (''OSKEY'', ''OS Key''),
      (''TIMER'', ''Timer''), (''WINDOW_DEACTIVATE'', ''Window Deactivate'')]"

definition sample_host :: host where
  "sample_host =
     \<lparr>event_type_enum_items = sample_items,
      blf_dimensions = (\<lambda>s. (8 * real (length s), 10)),
      pgettext = (\<lambda>s. s),
      SPACE_TYPES = [''VIEW_3D'' \<mapsto> ''SpaceView3D'', ''OUTLINER'' \<mapsto> ''SpaceOutliner'']\<rparr>"

definition sample_region :: region where
  "sample_region =
     \<lparr>r_ptr = 100, r_type = ''WINDOW'', r_x = 0, r_y = 0, r_width = 100, r_height = 100\<rparr>"

definition sample_area :: area where
  "sample_area =
     \<lparr>a_ptr = 10, a_type = ''VIEW_3D'', a_x = 0, a_y = 0, a_width = 100, a_height = 100,
      a_regions = [sample_region], a_spaces = [20], a_spaces_active = 20\<rparr>"

definition sample_window :: window where
  "sample_window = \<lparr>w_ptr = 1, w_screen_areas = [sample_area]\<rparr>"

definition sample_prefs :: prefs where
  "sample_prefs =
     \<lparr>display_time = 3, p_origin = ''WINDOW'', p_offset = (10, 10),
      show_mouse_events = True, show_last_operator = False\<rparr>"

definition sample_context :: "context" where
  "sample_context =
     \<lparr>c_windows = [sample_window], c_operators = [], c_screen_areas = [sample_area],
      c_window = sample_window, c_area = sample_area, c_region = sample_region,
      c_space_data = 20, c_prefs = sample_prefs, c_use_region_overlap = False, c_time = 100,
      c_time_prune = 100, c_time_draw = 100\<rparr>"

definition sample_event :: event where
  "sample_event =
     \<lparr>ev_type = ''A'', ev_value = ''PRESS'', ev_shift = False, ev_ctrl = False,
      ev_alt = False, ev_oskey = False\<rparr>"

text \<open>The state after the operator has been switched on in \<open>sample_context\<close>.\<close>

definition sample_running :: state where
  "sample_running = fst (invoke sample_host sample_context sample_event initial_state)"

text \<open>The sample context with the last operator shown.\<close>

definition show_last_context :: "context" where
  "show_last_context = sample_context\<lparr>c_prefs := sample_prefs\<lparr>show_last_operator := True\<rparr>\<rparr>"

text \<open>The sample context with the origin set to the area.\<close>

definition area_mode_context :: "context" where
  "area_mode_context = sample_context\<lparr>c_prefs := sample_prefs\<lparr>p_origin := ''AREA''\<rparr>\<rparr>"

text \<open>
  A running state whose origin names an area (pointer 11, space 21) that is no longer on the
  screen, after \<open>modal\<close> has recorded the spaces of the areas that are.
\<close>

definition replaced_area_state :: state where
  "replaced_area_state =
     update_area_spaces sample_context
       (sample_running\<lparr>st_origin := (st_origin sample_running)\<lparr>o_area := Some 11, o_space := Some 21\<rparr>\<rparr>)"

subsection \<open>The events that the host dispatches\<close>

text \<open>
  Modelled from the spec: the type of the field \<open>type\<close> of a host event, which the host
  declares and the repository does not. The event types are a closed, host-defined
  enumeration; \<open>EventType\<close> is built from the items of that very field (lines 89 to 93), and
  the host reports a type outside the enumeration as the empty string (the comment on lines
  741 to 743). So the type of a dispatched event is an identifier of the enumeration or empty.
\<close>

definition host_event :: "host \<Rightarrow> event \<Rightarrow> bool" where
  "host_event h event =
     (ev_type event \<in> set (map fst (event_type_enum_items h)) \<or> ev_type event = [])"

subsection \<open>What \<open>sorted_modifier_keys\<close> returns, in the words of its docstring\<close>

text \<open>The display name of a member with the left and right qualifiers removed.\<close>

definition display_name :: "host \<Rightarrow> EventType \<Rightarrow> string" where
  "display_name h m =
     remove_left_right (case map_of (event_type_enum_items h) m of None \<Rightarrow> [] | Some n \<Rightarrow> n)"

text \<open>A list without its duplicates, each element at its first occurrence.\<close>

definition unique_first :: "'a list \<Rightarrow> 'a list" where
  "unique_first xs = rev (remdups (rev xs))"

definition add_name :: "string \<Rightarrow> string list \<Rightarrow> string list" where
  "add_name n acc = (if n \<notin> set acc then acc @ [n] else acc)"

text \<open>The sample screen with a small area, and the origin set to the area.\<close>

definition small_area :: area where
  "small_area = sample_area\<lparr>a_width := 11, a_height := 11\<rparr>"

definition small_area_context :: "context" where
  "small_area_context =
     sample_context\<lparr>c_windows := [\<lparr>w_ptr = 1, w_screen_areas = [small_area]\<rparr>],
                    c_screen_areas := [small_area],
                    c_prefs := sample_prefs\<lparr>p_origin := ''AREA''\<rparr>\<rparr>"

subsection \<open>Intersection of axis-aligned boxes, as the specification words it\<close>

text \<open>
  Two boxes, each given by its minimum and its maximum corner, intersect when on both axes
  neither box ends before the other one starts.
\<close>

definition aabb_intersects :: "real \<times> real \<Rightarrow> real \<times> real \<Rightarrow> real \<times> real \<Rightarrow> real \<times> real \<Rightarrow> bool" where
  "aabb_intersects min1 max1 min2 max2 =
     (fst min1 \<le> fst max2 \<and> fst min2 \<le> fst max1 \<and> snd min1 \<le> snd max2 \<and> snd min2 \<le> snd max1)"

subsection \<open>Vocabulary for the properties of the event history\<close>

text \<open>The modifier types that \<open>update_hold_modifier_keys\<close> records for the flags of an event.\<close>

definition held_modifiers :: "event \<Rightarrow> EventType list" where
  "held_modifiers event =
     (if ev_shift event then [''LEFT_SHIFT''] else [])
   @ (if ev_oskey event then [''OSKEY''] else [])
   @ (if ev_alt event then [''LEFT_ALT''] else [])
   @ (if ev_ctrl event then [''LEFT_CTRL''] else [])"

text \<open>
  A well-formed modifier snapshot: only the left variants of shift, ctrl and alt and the OS
  key, without duplicates, and without the type of the entry itself.
\<close>

definition snapshot_ok :: "event_item \<Rightarrow> bool" where
  "snapshot_ok item =
     (let (_, event_type, modifiers, _) = item
      in set modifiers \<subseteq> {''LEFT_SHIFT'', ''OSKEY'', ''LEFT_ALT'', ''LEFT_CTRL''} \<and>
         distinct modifiers \<and> event_type \<notin> set modifiers)"





text \<open>The sample key press with shift held.\<close>

definition shift_A :: event where
  "shift_A = sample_event\<lparr>ev_shift := True\<rparr>"

subsection \<open>Vocabulary for the redraw step and the registries\<close>

text \<open>Every region of every area of the screen, in the order of the loops.\<close>

definition screen_regions :: "context \<Rightarrow> region list" where
  "screen_regions ctx = concat (map a_regions (c_screen_areas ctx))"

text \<open>The host calls made on the way from the state \<open>st\<close> to the state \<open>st'\<close>.\<close>

definition new_log :: "state \<Rightarrow> state \<Rightarrow> host_call list" where
  "new_log st st' = drop (length (host_log st)) (host_log st')"




text \<open>The sample key released.\<close>

definition release_A :: event where
  "release_A = sample_event\<lparr>ev_value := ''RELEASE''\<rparr>"

text \<open>
  A running state that tracks the region with pointer 7, drawn into at the last redraw; no
  region of the sample screen has that pointer (its panel has been closed).
\<close>

definition stale_state :: state where
  "stale_state = sample_running\<lparr>draw_regions_prev := {7}\<rparr>"

text \<open>The state after \<open>modal\<close> has processed the release in that state.\<close>

definition tracked_state :: state where
  "tracked_state = fst (modal sample_host sample_context release_A stale_state)"

section \<open>Properties\<close>

subsection \<open>Concrete states\<close>

lemma sample_running_eq:
  "sample_running =
     \<lparr>hold_modifier_keys = [], event_history = [], operator_history = [], prev_time = 0,
      timers = [1 \<mapsto> Timer 1], handlers = [], draw_regions_prev = {},
      st_origin = \<lparr>o_window = Some 1, o_area = Some 10, o_space = Some 20,
                    o_region_type = ''WINDOW''\<rparr>,
      area_spaces = Map.empty, running = True,
      host_log = [EventTimerAdd 1, ModalHandlerAdd, AreaTagRedraw 10]\<rparr>"
  by (simp add: sample_running_def invoke_def initial_state_def update_hold_modifier_keys_def
        EventType_getitem_def sample_host_def sample_items_def sample_event_def
        event_timer_add_def timer_add_window_def sample_context_def sample_window_def sample_area_def
        sample_region_def)

subsection \<open>Pruning the event history\<close>

text \<open>
  C5. With \<open>t\<close> the clock reading and \<open>d\<close> the display time, \<open>removed_old_event_history\<close>
  keeps, in their order, exactly the entries that do not satisfy \<open>t - timestamp > d\<close>, and
  pruning the pruned history again at the same \<open>t\<close> changes nothing.
\<close>

theorem removed_old_event_history_exact:
  "removed_old_event_history ctx st =
     filter (\<lambda>item. \<not> (c_time ctx - fst item > display_time (c_prefs ctx))) (event_history st)
   \<and> removed_old_event_history ctx (st\<lparr>event_history := removed_old_event_history ctx st\<rparr>)
       = removed_old_event_history ctx st"
  by (simp add: removed_old_event_history_def not_less)

lemmas sample_defs = sample_context_def sample_window_def sample_area_def sample_region_def
  sample_prefs_def sample_host_def sample_items_def sample_event_def

lemma replaced_area_state_eq:
  "replaced_area_state =
     \<lparr>hold_modifier_keys = [], event_history = [], operator_history = [], prev_time = 0,
      timers = [1 \<mapsto> Timer 1], handlers = [], draw_regions_prev = {},
      st_origin = \<lparr>o_window = Some 1, o_area = Some 11, o_space = Some 21,
                    o_region_type = ''WINDOW''\<rparr>,
      area_spaces = [10 \<mapsto> {20}], running = True,
      host_log = [EventTimerAdd 1, ModalHandlerAdd, AreaTagRedraw 10]\<rparr>"
  by (simp add: replaced_area_state_def sample_running_eq update_area_spaces_def add_space_def
        sample_defs)

subsection \<open>The draw area\<close>

text \<open>
  The class has no attribute \<open>SEPARATOR_HEIGHT\<close> (the ratio is defined under the name
  \<open>HEIGHT_RATIO_FOR_SEPARATOR\<close>), so both places of \<open>calc_draw_area_rect\<close> that read it raise.
\<close>

lemma cls_SEPARATOR_HEIGHT: "cls_getattr ''SEPARATOR_HEIGHT'' = Inl AttributeError"
  by (simp add: cls_getattr_def class_attributes_def)

text \<open>
  C1 does not hold of the code. Once an origin has resolved, \<open>calc_draw_area_rect\<close> returns
  no rectangle but raises whenever the last operator is to be shown, a modifier is held, or the
  pruned event history is not empty.
\<close>

theorem calc_draw_area_rect_raises:
  assumes "get_origin ctx st = Inr (Some w, a, r, x, y)"
    and "show_last_operator (c_prefs ctx) \<or> hold_modifier_keys st \<noteq> []
           \<or> removed_old_event_history ctx st \<noteq> []"
  shows "\<exists>e. calc_draw_area_rect h ctx st = Inl e"
proof (cases "show_last_operator (c_prefs ctx)")
  case True
  then show ?thesis
    using assms(1) by (simp add: calc_draw_area_rect_def ebind_def cls_SEPARATOR_HEIGHT Let_def)
next
  case False
  then have *: "hold_modifier_keys st \<noteq> [] \<or> removed_old_event_history ctx st \<noteq> []"
    using assms(2) by simp
  show ?thesis
  proof (cases "hold_modifier_keys st \<noteq> []")
    case True
    then show ?thesis
      using assms(1) False
      by (cases "sorted_modifier_keys h (hold_modifier_keys st)")
         (simp_all add: calc_draw_area_rect_def ebind_def cls_SEPARATOR_HEIGHT Let_def)
  next
    case False
    then show ?thesis
      using assms(1) * \<open>\<not> show_last_operator (c_prefs ctx)\<close>
      by (simp add: calc_draw_area_rect_def ebind_def cls_SEPARATOR_HEIGHT Let_def)
  qed
qed

text \<open>
  In the sample context with the last operator shown, the origin resolves (to the window, at
  the offset) and \<open>calc_draw_area_rect\<close> raises \<open>AttributeError\<close>.
\<close>

theorem calc_draw_area_rect_raises_witness:
  "get_origin show_last_context sample_running = Inr (Some sample_window, None, None, 10, 10)
   \<and> show_last_operator (c_prefs show_last_context)
   \<and> calc_draw_area_rect sample_host show_last_context sample_running = Inl AttributeError"
proof -
  have o: "get_origin show_last_context sample_running
      = Inr (Some sample_window, None, None, 10, 10)"
    by (simp add: show_last_context_def sample_running_eq get_origin_def sample_defs)
  have s: "show_last_operator (c_prefs show_last_context)"
    by (simp add: show_last_context_def)
  have "show_last_operator (c_prefs show_last_context) \<or> hold_modifier_keys sample_running \<noteq> []
           \<or> removed_old_event_history show_last_context sample_running \<noteq> []"
    using s by simp
  then have "\<exists>e. calc_draw_area_rect sample_host show_last_context sample_running = Inl e"
    using calc_draw_area_rect_raises [OF o] by blast
  then show ?thesis
    using o s
    by (simp add: show_last_context_def sample_running_eq calc_draw_area_rect_def
          get_origin_def sample_defs ebind_def cls_getattr_def class_attributes_def
          removed_old_operator_history_def)
qed

subsection \<open>The origin\<close>

text \<open>
  When neither the area pointer nor the active space matches and the area is a key of
  \<open>area_spaces\<close>, \<open>is_area_match\<close> raises; in the area and region modes \<open>get_origin\<close> raises
  with it as soon as such an area precedes every matching one.
\<close>

lemma is_area_match_raises:
  "Some (a_ptr area) \<noteq> o_area (st_origin st) \<Longrightarrow>
   Some (a_spaces_active area) \<noteq> o_space (st_origin st) \<Longrightarrow>
   area_spaces st (a_ptr area) \<noteq> None \<Longrightarrow>
   is_area_match st area = Inl AttributeError"
  by (simp add: is_area_match_def)

text \<open>
  C3 does not hold of the code. The origin names an area that has been replaced; the area now on the screen has been
  recorded by \<open>modal\<close>. In the area mode \<open>get_origin\<close> raises \<open>AttributeError\<close> instead of
  returning the no-target result.
\<close>

theorem get_origin_raises:
  "get_origin area_mode_context replaced_area_state = Inl AttributeError"
  by (simp add: area_mode_context_def replaced_area_state_eq get_origin_def sample_defs
        is_area_match_def)

subsection \<open>Event types outside the enumeration\<close>

text \<open>
  C2. An event that the host dispatches with a type outside the enumeration (its type string
  is then empty) never makes \<open>modal\<close> raise: the state is left untouched, so the event is
  neither recorded nor drawn, and \<open>modal\<close> returns \<open>PASS_THROUGH\<close> while the operator runs
  (and \<open>FINISHED\<close> when it has been stopped).
\<close>

theorem modal_unrecognized_type_passes:
  assumes "host_event h event"
    and "ev_type event \<notin> set (map fst (event_type_enum_items h))"
  shows "modal h ctx event st = (st, Inr (if running st then PASS_THROUGH else FINISHED))"
proof -
  have "ev_type event = []" using assms by (simp add: host_event_def)
  then show ?thesis by (simp add: modal_def)
qed

theorem modal_unrecognized_type_passes_witness:
  "host_event sample_host (sample_event\<lparr>ev_type := []\<rparr>)
   \<and> ev_type (sample_event\<lparr>ev_type := []\<rparr>) \<notin> set (map fst (event_type_enum_items sample_host))
   \<and> running sample_running
   \<and> modal sample_host sample_context (sample_event\<lparr>ev_type := []\<rparr>) sample_running
       = (sample_running, Inr PASS_THROUGH)"
proof -
  have r: "running sample_running" by (simp add: sample_running_eq)
  have e: "host_event sample_host (sample_event\<lparr>ev_type := []\<rparr>)"
    by (simp add: host_event_def)
  have n: "ev_type (sample_event\<lparr>ev_type := []\<rparr>)
      \<notin> set (map fst (event_type_enum_items sample_host))"
    by (simp add: sample_defs)
  show ?thesis
    using r e n modal_unrecognized_type_passes [OF e n, of sample_context sample_running]
    by simp
qed

subsection \<open>Sorting the modifiers\<close>

lemma names_in_catalogue:
  "m \<in> fst ` set (event_type_enum_items h) \<Longrightarrow>
     EventType_names h m =
       Inr (case map_of (event_type_enum_items h) m of None \<Rightarrow> [] | Some n \<Rightarrow> n)"
  by (auto simp: EventType_names_def map_of_eq_None_iff split: option.splits)

lemma loop_assertion:
  "set ms \<subseteq> fst ` set (event_type_enum_items h) \<Longrightarrow>
   \<exists>m\<in>set ms. m \<notin> set MODIFIER_EVENT_TYPES \<Longrightarrow>
   sorted_modifier_keys_loop h ms names = Inl AssertionError"
proof (induction ms arbitrary: names)
  case Nil
  then show ?case by simp
next
  case (Cons m ms)
  have nm: "EventType_names h m =
      Inr (case map_of (event_type_enum_items h) m of None \<Rightarrow> [] | Some n \<Rightarrow> n)"
    using Cons.prems(1) by (intro names_in_catalogue) simp
  show ?case
  proof (cases "m \<in> set MODIFIER_EVENT_TYPES")
    case True
    then have "\<exists>m\<in>set ms. m \<notin> set MODIFIER_EVENT_TYPES" using Cons.prems(2) by auto
    moreover have "set ms \<subseteq> fst ` set (event_type_enum_items h)" using Cons.prems(1) by simp
    ultimately show ?thesis using Cons.IH True nm by (simp add: Let_def)
  next
    case False
    then show ?thesis using nm by simp
  qed
qed

lemma loop_all_modifiers:
  "set ms \<subseteq> fst ` set (event_type_enum_items h) \<Longrightarrow>
   set ms \<subseteq> set MODIFIER_EVENT_TYPES \<Longrightarrow>
   sorted_modifier_keys_loop h ms names = Inr (fold add_name (map (display_name h) ms) names)"
proof (induction ms arbitrary: names)
  case Nil
  then show ?case by simp
next
  case (Cons m ms)
  have nm: "EventType_names h m =
      Inr (case map_of (event_type_enum_items h) m of None \<Rightarrow> [] | Some n \<Rightarrow> n)"
    using Cons.prems(1) by (intro names_in_catalogue) simp
  show ?case using Cons nm by (simp add: Let_def add_name_def display_name_def)
qed

lemma fold_add_name: "fold add_name xs [] = unique_first xs"
proof (induction xs rule: rev_induct)
  case Nil
  then show ?case by (simp add: unique_first_def)
next
  case (snoc x xs)
  have "set (unique_first xs) = set xs" by (simp add: unique_first_def)
  then show ?case using snoc by (simp add: add_name_def unique_first_def)
qed

text \<open>
  C9, as the code has it. For a list of members of the enumeration: when one of them is
  outside \<open>MODIFIER_EVENT_TYPES\<close>, \<open>sorted_modifier_keys\<close> fails its assertion; when all of
  them are modifier types, it returns their display names in the stable order of their
  positions in \<open>MODIFIER_EVENT_TYPES\<close>, without the left and right qualifiers and without
  duplicates, each name at its first occurrence.
\<close>

theorem sorted_modifier_keys_asserts:
  assumes "set modifiers \<subseteq> fst ` set (event_type_enum_items h)"
  shows "((\<exists>m\<in>set modifiers. m \<notin> set MODIFIER_EVENT_TYPES) \<longrightarrow>
            sorted_modifier_keys h modifiers = Inl AssertionError) \<and>
         ((\<forall>m\<in>set modifiers. m \<in> set MODIFIER_EVENT_TYPES) \<longrightarrow>
            sorted_modifier_keys h modifiers =
              Inr (unique_first (map (display_name h) (sort_key key_fn modifiers))))"
proof (intro conjI impI)
  assume "\<exists>m\<in>set modifiers. m \<notin> set MODIFIER_EVENT_TYPES"
  then show "sorted_modifier_keys h modifiers = Inl AssertionError"
    unfolding sorted_modifier_keys_def using assms by (intro loop_assertion) simp_all
next
  assume "\<forall>m\<in>set modifiers. m \<in> set MODIFIER_EVENT_TYPES"
  then have "set (sort_key key_fn modifiers) \<subseteq> set MODIFIER_EVENT_TYPES" by auto
  moreover have "set (sort_key key_fn modifiers) \<subseteq> fst ` set (event_type_enum_items h)"
    using assms by simp
  ultimately show "sorted_modifier_keys h modifiers =
      Inr (unique_first (map (display_name h) (sort_key key_fn modifiers)))"
    unfolding sorted_modifier_keys_def by (simp add: loop_all_modifiers fold_add_name)
qed

lemma sort_key_A_shift: "sort_key key_fn [''A'', ''LEFT_SHIFT''] = [''LEFT_SHIFT'', ''A'']"
  by (simp add: key_fn_def MODIFIER_EVENT_TYPES_def)

lemma sort_key_ctrl_shift_shift:
  "sort_key key_fn [''RIGHT_CTRL'', ''LEFT_SHIFT'', ''RIGHT_SHIFT'']
     = [''LEFT_SHIFT'', ''RIGHT_SHIFT'', ''RIGHT_CTRL'']"
  by (simp add: key_fn_def MODIFIER_EVENT_TYPES_def)

lemma display_name_sample:
  "display_name sample_host ''LEFT_SHIFT'' = ''Shift''"
  "display_name sample_host ''RIGHT_SHIFT'' = ''Shift''"
  "display_name sample_host ''RIGHT_CTRL'' = ''Ctrl''"
  by (simp_all add: display_name_def sample_defs startswith_def)

theorem sorted_modifier_keys_asserts_witness:
  "set [''A'', ''LEFT_SHIFT''] \<subseteq> fst ` set (event_type_enum_items sample_host)
   \<and> ''A'' \<in> set [''A'', ''LEFT_SHIFT''] \<and> ''A'' \<notin> set MODIFIER_EVENT_TYPES
   \<and> sorted_modifier_keys sample_host [''A'', ''LEFT_SHIFT''] = Inl AssertionError
   \<and> set [''RIGHT_CTRL'', ''LEFT_SHIFT'', ''RIGHT_SHIFT''] \<subseteq> set MODIFIER_EVENT_TYPES
   \<and> sorted_modifier_keys sample_host [''RIGHT_CTRL'', ''LEFT_SHIFT'', ''RIGHT_SHIFT'']
       = Inr [''Shift'', ''Ctrl'']"
proof -
  have c1: "set [''A'', ''LEFT_SHIFT''] \<subseteq> fst ` set (event_type_enum_items sample_host)"
    by (simp add: sample_defs)
  have c2: "set [''RIGHT_CTRL'', ''LEFT_SHIFT'', ''RIGHT_SHIFT'']
              \<subseteq> fst ` set (event_type_enum_items sample_host)"
    by (simp add: sample_defs)
  have a: "''A'' \<notin> set MODIFIER_EVENT_TYPES" by (simp add: MODIFIER_EVENT_TYPES_def)
  have m: "set [''RIGHT_CTRL'', ''LEFT_SHIFT'', ''RIGHT_SHIFT''] \<subseteq> set MODIFIER_EVENT_TYPES"
    by (simp add: MODIFIER_EVENT_TYPES_def)
  have e: "\<exists>m\<in>set [''A'', ''LEFT_SHIFT'']. m \<notin> set MODIFIER_EVENT_TYPES"
    using a by simp
  have r1: "sorted_modifier_keys sample_host [''A'', ''LEFT_SHIFT''] = Inl AssertionError"
    using sorted_modifier_keys_asserts [OF c1] e by blast
  have r2: "sorted_modifier_keys sample_host [''RIGHT_CTRL'', ''LEFT_SHIFT'', ''RIGHT_SHIFT'']
       = Inr (unique_first (map (display_name sample_host)
               (sort_key key_fn [''RIGHT_CTRL'', ''LEFT_SHIFT'', ''RIGHT_SHIFT''])))"
    using sorted_modifier_keys_asserts [OF c2] m by blast
  have r3: "sorted_modifier_keys sample_host [''RIGHT_CTRL'', ''LEFT_SHIFT'', ''RIGHT_SHIFT'']
       = Inr [''Shift'', ''Ctrl'']"
    by (subst r2, subst sort_key_ctrl_shift_shift) (simp add: display_name_sample unique_first_def)
  show ?thesis using c1 a m r1 r3 by simp
qed

text \<open>
  The claim as the specification states it fails: the list below holds the non-modifier type
  \<open>A\<close>, which the sort puts after \<open>LEFT_SHIFT\<close>, and the call ends in the assertion.
\<close>

theorem sorted_modifier_keys_non_modifier:
  "''A'' \<notin> set MODIFIER_EVENT_TYPES
   \<and> sorted_modifier_keys sample_host [''A'', ''LEFT_SHIFT''] = Inl AssertionError"
  by (simp add: sorted_modifier_keys_def sort_key_A_shift EventType_names_def sample_defs
        startswith_def)
     (simp add: MODIFIER_EVENT_TYPES_def)

subsection \<open>The regions to redraw\<close>

lemma region_overlaps_iff:
  "region_overlaps [x0, y0] [x1, y1] region =
     aabb_intersects (r_x region, r_y region)
       (r_x region + r_width region - 1, r_y region + r_height region - 1) (x0, y0) (x1, y1)"
  by (auto simp: region_overlaps_def aabb_intersects_def)

lemma set_collect_regions:
  "\<not> (x1 - x0 = 0 \<and> y1 - y0 = 0) \<Longrightarrow>
   set (collect_regions ctx (Some (x0, y0, x1, y1))) =
     {(area, region). area \<in> set (c_screen_areas ctx) \<and> region \<in> set (a_regions area) \<and>
        r_type region \<noteq> [] \<and>
        aabb_intersects (r_x region, r_y region)
          (r_x region + r_width region - 1, r_y region + r_height region - 1)
          (x0, y0) (x1 - 1, y1 - 1)}"
  by (auto simp: collect_regions_def region_overlaps_iff Let_def)

text \<open>
  C6, as the code has it. \<open>find_redraw_regions\<close> returns the empty list when the draw area
  is none or has both zero width and zero height; for any other rectangle it returns exactly
  the pairs of an area of the screen and one of its regions with a non-empty type whose
  rectangle intersects, as an axis-aligned box, the draw rectangle with its maximum corner
  moved in by one.
\<close>

theorem find_redraw_regions_exact:
  "(calc_draw_area_rect h ctx st = Inr None \<longrightarrow> find_redraw_regions h ctx st = Inr []) \<and>
   (calc_draw_area_rect h ctx st = Inr (Some (x0, y0, x1, y1)) \<longrightarrow>
      (x1 - x0 = 0 \<and> y1 - y0 = 0 \<longrightarrow> find_redraw_regions h ctx st = Inr []) \<and>
      (\<not> (x1 - x0 = 0 \<and> y1 - y0 = 0) \<longrightarrow>
         (\<exists>regions. find_redraw_regions h ctx st = Inr regions \<and>
            set regions =
              {(area, region). area \<in> set (c_screen_areas ctx) \<and>
                 region \<in> set (a_regions area) \<and> r_type region \<noteq> [] \<and>
                 aabb_intersects (r_x region, r_y region)
                   (r_x region + r_width region - 1, r_y region + r_height region - 1)
                   (x0, y0) (x1 - 1, y1 - 1)})))"
proof (intro conjI impI)
  assume "calc_draw_area_rect h ctx st = Inr None"
  then show "find_redraw_regions h ctx st = Inr []"
    by (simp add: find_redraw_regions_def ebind_def collect_regions_def)
next
  assume "calc_draw_area_rect h ctx st = Inr (Some (x0, y0, x1, y1))"
    and "x1 - x0 = 0 \<and> y1 - y0 = 0"
  then show "find_redraw_regions h ctx st = Inr []"
    by (simp add: find_redraw_regions_def ebind_def collect_regions_def)
next
  assume c: "calc_draw_area_rect h ctx st = Inr (Some (x0, y0, x1, y1))"
    and n: "\<not> (x1 - x0 = 0 \<and> y1 - y0 = 0)"
  have "find_redraw_regions h ctx st = Inr (collect_regions ctx (Some (x0, y0, x1, y1)))"
    using c by (simp add: find_redraw_regions_def ebind_def)
  then show "\<exists>regions. find_redraw_regions h ctx st = Inr regions \<and>
            set regions =
              {(area, region). area \<in> set (c_screen_areas ctx) \<and>
                 region \<in> set (a_regions area) \<and> r_type region \<noteq> [] \<and>
                 aabb_intersects (r_x region, r_y region)
                   (r_x region + r_width region - 1, r_y region + r_height region - 1)
                   (x0, y0) (x1 - 1, y1 - 1)}"
    using set_collect_regions [OF n] by simp
qed

lemma calc_sample: "calc_draw_area_rect sample_host sample_context sample_running = Inr (Some (10, 10, 10, 20))"
  by (simp add: sample_running_eq calc_draw_area_rect_def get_origin_def
        sample_defs ebind_def removed_old_event_history_def)

lemma calc_initial: "calc_draw_area_rect sample_host sample_context initial_state = Inr None"
  by (simp add: initial_state_def calc_draw_area_rect_def get_origin_def
        sample_defs ebind_def)

lemma calc_small: "calc_draw_area_rect sample_host small_area_context sample_running = Inr (Some (10, 10, 10, 10))"
  by (simp add: sample_running_eq calc_draw_area_rect_def get_origin_def small_area_context_def small_area_def
        sample_defs ebind_def removed_old_event_history_def is_area_match_def)

lemma find_sample: "find_redraw_regions sample_host sample_context sample_running = Inr [(sample_area, sample_region)]"
  by (simp add: find_redraw_regions_def calc_sample ebind_def collect_regions_def region_overlaps_def)
     (simp add: sample_defs)

text \<open>
  The claim as the specification states it fails for a rectangle of zero area: with nothing
  to show, the draw area of the sample context has zero width and the height of one line, and
  the region under it is returned.
\<close>

theorem find_redraw_regions_zero_width:
  "calc_draw_area_rect sample_host sample_context sample_running = Inr (Some (10, 10, 10, 20))
   \<and> (10 - 10) * (20 - 10) = (0 :: real)
   \<and> find_redraw_regions sample_host sample_context sample_running
       = Inr [(sample_area, sample_region)]"
  by (simp add: calc_sample find_sample)

theorem find_redraw_regions_exact_witness:
  "calc_draw_area_rect sample_host sample_context initial_state = Inr None
   \<and> find_redraw_regions sample_host sample_context initial_state = Inr []
   \<and> calc_draw_area_rect sample_host small_area_context sample_running = Inr (Some (10, 10, 10, 10))
   \<and> find_redraw_regions sample_host small_area_context sample_running = Inr []
   \<and> calc_draw_area_rect sample_host sample_context sample_running = Inr (Some (10, 10, 10, 20))
   \<and> find_redraw_regions sample_host sample_context sample_running
       = Inr [(sample_area, sample_region)]
   \<and> {(sample_area, sample_region)} =
       {(area, region). area \<in> set (c_screen_areas sample_context) \<and>
          region \<in> set (a_regions area) \<and> r_type region \<noteq> [] \<and>
          aabb_intersects (r_x region, r_y region)
            (r_x region + r_width region - 1, r_y region + r_height region - 1)
            (10, 10) (10 - 1, 20 - 1)}"
proof -
  have a: "find_redraw_regions sample_host sample_context initial_state = Inr []"
    using find_redraw_regions_exact [of sample_host sample_context initial_state] calc_initial
    by simp
  have b: "find_redraw_regions sample_host small_area_context sample_running = Inr []"
    using find_redraw_regions_exact [of sample_host small_area_context sample_running 10 10 10 10]
      calc_small by simp
  have c: "{(sample_area, sample_region)} =
       {(area, region). area \<in> set (c_screen_areas sample_context) \<and>
          region \<in> set (a_regions area) \<and> r_type region \<noteq> [] \<and>
          aabb_intersects (r_x region, r_y region)
            (r_x region + r_width region - 1, r_y region + r_height region - 1)
            (10, 10) (10 - 1, 20 - 1)}"
    using find_redraw_regions_exact [of sample_host sample_context sample_running 10 10 10 20]
      calc_sample find_sample by simp
  show ?thesis using a b c calc_initial calc_small calc_sample find_sample by blast
qed

subsection \<open>What each step of \<open>modal\<close> leaves unchanged\<close>

lemma fold_frame: "(\<And>x s. g (f x s) = g s) \<Longrightarrow> g (fold f xs s) = g s"
  by (induction xs arbitrary: s) simp_all

lemma update_area_spaces_frame:
  "event_history (update_area_spaces ctx st) = event_history st"
  "running (update_area_spaces ctx st) = running st"
  "timers (update_area_spaces ctx st) = timers st"
  "handlers (update_area_spaces ctx st) = handlers st"
  "host_log (update_area_spaces ctx st) = host_log st"
  "hold_modifier_keys (update_area_spaces ctx st) = hold_modifier_keys st"
  "draw_regions_prev (update_area_spaces ctx st) = draw_regions_prev st"
  unfolding update_area_spaces_def
  by (rule fold_frame, rule fold_frame, simp add: add_space_def)+

lemma update_hold_modifier_keys_frame:
  "event_history (fst (update_hold_modifier_keys h ev st)) = event_history st"
  "running (fst (update_hold_modifier_keys h ev st)) = running st"
  "timers (fst (update_hold_modifier_keys h ev st)) = timers st"
  "handlers (fst (update_hold_modifier_keys h ev st)) = handlers st"
  "host_log (fst (update_hold_modifier_keys h ev st)) = host_log st"
  "draw_regions_prev (fst (update_hold_modifier_keys h ev st)) = draw_regions_prev st"
  by (simp_all add: update_hold_modifier_keys_def Let_def split: sum.splits)


lemma append_operators_frame:
  "event_history (fst (append_operators t ops st)) = event_history st \<and>
   running (fst (append_operators t ops st)) = running st \<and>
   timers (fst (append_operators t ops st)) = timers st \<and>
   handlers (fst (append_operators t ops st)) = handlers st \<and>
   host_log (fst (append_operators t ops st)) = host_log st \<and>
   draw_regions_prev (fst (append_operators t ops st)) = draw_regions_prev st"
  by (induction t ops st rule: append_operators.induct) (simp_all split: list.splits)

lemma append_operators_frameD:
  "append_operators t ops st = (s', r) \<Longrightarrow>
     event_history s' = event_history st \<and> running s' = running st \<and>
     timers s' = timers st \<and> handlers s' = handlers st \<and> host_log s' = host_log st \<and>
     draw_regions_prev s' = draw_regions_prev st"
  using append_operators_frame [of t ops st] by simp

lemma modal_operator_history_frame:
  "event_history (fst (modal_operator_history ctx st)) = event_history st"
  "running (fst (modal_operator_history ctx st)) = running st"
  "timers (fst (modal_operator_history ctx st)) = timers st"
  "handlers (fst (modal_operator_history ctx st)) = handlers st"
  "host_log (fst (modal_operator_history ctx st)) = host_log st"
  "draw_regions_prev (fst (modal_operator_history ctx st)) = draw_regions_prev st"
  by (auto simp: modal_operator_history_def Let_def split: prod.splits sum.splits if_splits
           dest: append_operators_frameD)

lemma redraw_prev_frame:
  "event_history (redraw_prev ctx st) = event_history st"
  "running (redraw_prev ctx st) = running st"
  "timers (redraw_prev ctx st) = timers st"
  "handlers (redraw_prev ctx st) = handlers st"
  unfolding redraw_prev_def
  by (rule fold_frame, rule fold_frame, simp add: untrack_region_def)+

lemma redraw_regions_frame:
  "event_history (fst (redraw_regions h regions st)) = event_history st \<and>
   running (fst (redraw_regions h regions st)) = running st \<and>
   timers (fst (redraw_regions h regions st)) = timers st"
  by (induction h regions st rule: redraw_regions.induct)
     (simp_all add: track_region_def Let_def split: option.splits)

lemma redraw_regions_frameD:
  "redraw_regions h regions st = (s', r) \<Longrightarrow>
     event_history s' = event_history st \<and> running s' = running st \<and> timers s' = timers st"
  using redraw_regions_frame [of h regions st] by simp

lemma modal_redraw_frame:
  "event_history (fst (modal_redraw h ctx regions st)) = event_history st"
  "running (fst (modal_redraw h ctx regions st)) = running st"
  "timers (fst (modal_redraw h ctx regions st)) = timers st"
  by (auto simp: modal_redraw_def redraw_prev_frame split: prod.splits sum.splits
           dest: redraw_regions_frameD)

lemma modal_redraw_frameD:
  "modal_redraw h ctx regions st = (s', r) \<Longrightarrow>
     event_history s' = event_history st \<and> running s' = running st \<and> timers s' = timers st"
  using modal_redraw_frame [of h ctx regions st] by simp

lemma modal_redraw_step_frame:
  "event_history (fst (modal_redraw_step h ctx ev st)) = event_history st"
  "running (fst (modal_redraw_step h ctx ev st)) = running st"
  "timers (fst (modal_redraw_step h ctx ev st)) = timers st"
  by (auto simp: modal_redraw_step_def split: prod.splits sum.splits
           dest: modal_redraw_frameD)

subsection \<open>The event history\<close>

lemma held_modifiers_ok:
  "set (held_modifiers event) \<subseteq> {''LEFT_SHIFT'', ''OSKEY'', ''LEFT_ALT'', ''LEFT_CTRL''}"
  "distinct (held_modifiers event)"
  by (auto simp: held_modifiers_def)

lemma update_hold_modifier_keys_hold:
  "hold_modifier_keys (fst (update_hold_modifier_keys h ev st)) = [] \<or>
   hold_modifier_keys (fst (update_hold_modifier_keys h ev st)) = held_modifiers ev"
  by (simp add: update_hold_modifier_keys_def held_modifiers_def Let_def split: sum.splits)

lemma current_mod_of_ok:
  assumes "hold_modifier_keys st = [] \<or> hold_modifier_keys st = held_modifiers ev"
  shows "snapshot_ok (t, et, current_mod_of et st, c)"
proof -
  have s: "set (hold_modifier_keys st) \<subseteq> {''LEFT_SHIFT'', ''OSKEY'', ''LEFT_ALT'', ''LEFT_CTRL''}"
    and d: "distinct (hold_modifier_keys st)"
    using assms held_modifiers_ok [of ev] by auto
  have "set (remove1 et (hold_modifier_keys st)) \<subseteq> set (hold_modifier_keys st)"
    by (rule set_remove1_subset)
  moreover have "et \<notin> set (remove1 et (hold_modifier_keys st))"
    using d by simp
  moreover have "distinct (remove1 et (hold_modifier_keys st))" using d by simp
  ultimately show ?thesis
    using s d by (auto simp: snapshot_ok_def current_mod_of_def Let_def)
qed

lemma append_event_ok:
  assumes "\<forall>item\<in>set history. snapshot_ok item" and "snapshot_ok (t, et, cm, 1)"
  shows "\<forall>item\<in>set (append_event t d et cm history). snapshot_ok item"
proof (cases "history = []")
  case True
  then show ?thesis using assms by (simp add: append_event_def)
next
  case False
  then have l: "last history \<in> set history" by simp
  obtain lt lty lm lc where le: "last history = (lt, lty, lm, lc)" by (cases "last history") auto
  have "snapshot_ok (lt, lty, lm, lc)" using assms(1) l le by auto
  then have m: "snapshot_ok (t, lty, lm, lc + 1)" by (simp add: snapshot_ok_def)
  have b: "\<forall>item\<in>set (butlast history). snapshot_ok item"
    using assms(1) by (auto dest: in_set_butlastD)
  show ?thesis using False le m b assms by (auto simp: append_event_def)
qed

lemma modal_event_history_ok:
  assumes "\<forall>item\<in>set (event_history st). snapshot_ok item"
    and "hold_modifier_keys st = [] \<or> hold_modifier_keys st = held_modifiers ev'"
  shows "\<forall>item\<in>set (event_history (fst (modal_event_history h ctx ev et st))). snapshot_ok item"
proof -
  have "snapshot_ok (c_time ctx, et, current_mod_of et st, 1)"
    using assms(2) by (rule current_mod_of_ok)
  then have "\<forall>item\<in>set (append_event (c_time ctx) (display_time (c_prefs ctx)) et
      (current_mod_of et st) (event_history st)). snapshot_ok item"
    using assms(1) by (intro append_event_ok) simp_all
  then show ?thesis
    using assms(1)
    by (auto simp: modal_event_history_def removed_old_event_history_def Let_def
             split: sum.splits)
qed

lemma held_types_are_modifiers:
  "{''LEFT_SHIFT'', ''OSKEY'', ''LEFT_ALT'', ''LEFT_CTRL''} \<subseteq> set MODIFIER_EVENT_TYPES"
  by (simp add: MODIFIER_EVENT_TYPES_def)

lemma snapshot_ok_modifier:
  assumes "snapshot_ok (t, et, ms, c)"
  shows "set ms \<subseteq> set MODIFIER_EVENT_TYPES"
proof -
  have "set ms \<subseteq> {''LEFT_SHIFT'', ''OSKEY'', ''LEFT_ALT'', ''LEFT_CTRL''}"
    using assms by (simp add: snapshot_ok_def)
  then show ?thesis using held_types_are_modifiers by (rule order_trans)
qed

lemma loop_no_assertion:
  "set ms \<subseteq> set MODIFIER_EVENT_TYPES \<Longrightarrow>
   sorted_modifier_keys_loop h ms names \<noteq> Inl AssertionError"
  by (induction ms arbitrary: names)
     (auto simp: EventType_names_def Let_def split: sum.splits option.splits)

lemma sorted_no_assertion:
  "set ms \<subseteq> set MODIFIER_EVENT_TYPES \<Longrightarrow> sorted_modifier_keys h ms \<noteq> Inl AssertionError"
  unfolding sorted_modifier_keys_def by (rule loop_no_assertion) simp

lemma modal_event_history_eq:
  "event_history (fst (modal h ctx ev st)) = event_history st \<or>
   (ev_type ev \<in> set (map fst (event_type_enum_items h)) \<and> running st \<and>
    event_history (fst (modal h ctx ev st)) =
      event_history (fst (modal_event_history h ctx ev (ev_type ev)
        (fst (update_hold_modifier_keys h ev (update_area_spaces ctx st))))))"
  by (auto simp: modal_def EventType_getitem_def modal_operator_history_frame
        modal_redraw_step_frame update_hold_modifier_keys_frame update_area_spaces_frame
        split: prod.splits sum.splits
        dest: arg_cong [where f = "\<lambda>p. event_history (fst p)"])

lemma modal_unfold:
  assumes "running st" and "ev_type ev \<noteq> []"
    and "ev_type ev \<in> set (map fst (event_type_enum_items h))"
    and "update_hold_modifier_keys h ev (update_area_spaces ctx st) = (s2, r2)"
    and "modal_event_history h ctx ev (ev_type ev) s2 = (s3, r3)"
    and "modal_operator_history ctx s3 = (s4, r4)"
  shows "modal h ctx ev st =
     (case r2 of Inl e \<Rightarrow> (s2, Inl e) | Inr _ \<Rightarrow>
        (case r3 of Inl e \<Rightarrow> (s3, Inl e) | Inr _ \<Rightarrow>
           (case r4 of Inl e \<Rightarrow> (s4, Inl e) | Inr _ \<Rightarrow> modal_redraw_step h ctx ev s4)))"
  using assms by (simp add: modal_def EventType_getitem_def split: sum.splits)

lemma update_hold_modifier_keys_result:
  "ev_type ev \<in> set (map fst (event_type_enum_items h)) \<Longrightarrow>
   snd (update_hold_modifier_keys h ev st) = Inr ()"
  by (simp add: update_hold_modifier_keys_def EventType_getitem_def Let_def)

lemma modal_event_history_running:
  assumes "running st" and "ev_type ev \<noteq> []"
    and "ev_type ev \<in> set (map fst (event_type_enum_items h))"
  shows "event_history (fst (modal h ctx ev st)) =
      event_history (fst (modal_event_history h ctx ev (ev_type ev)
        (fst (update_hold_modifier_keys h ev (update_area_spaces ctx st)))))"
proof -
  obtain s2 r2 where p2: "update_hold_modifier_keys h ev (update_area_spaces ctx st) = (s2, r2)"
    by (cases "update_hold_modifier_keys h ev (update_area_spaces ctx st)") auto
  obtain s3 r3 where p3: "modal_event_history h ctx ev (ev_type ev) s2 = (s3, r3)"
    by (cases "modal_event_history h ctx ev (ev_type ev) s2") auto
  obtain s4 r4 where p4: "modal_operator_history ctx s3 = (s4, r4)"
    by (cases "modal_operator_history ctx s3") auto
  have r2: "r2 = Inr ()" using update_hold_modifier_keys_result [OF assms(3), of "update_area_spaces ctx st"] p2
    by simp
  have e4: "event_history s4 = event_history s3"
    using modal_operator_history_frame(1) [of ctx s3] p4 by simp
  have e5: "event_history (fst (modal_redraw_step h ctx ev s4)) = event_history s3"
    using e4 by (simp add: modal_redraw_step_frame)
  show ?thesis
    using modal_unfold [OF assms p2 p3 p4] r2 p2 p3 e4 e5
    by (cases r3; cases r4) simp_all
qed

lemma not_ignored_in_catalogue:
  "is_ignore_event h ev p = Inr b \<Longrightarrow> ev_type ev \<in> set (map fst (event_type_enum_items h))"
  by (auto simp: is_ignore_event_def ebind_def EventType_getitem_def split: if_splits)

lemma not_ignored_not_deactivate:
  "is_ignore_event h ev p = Inr False \<Longrightarrow> ev_type ev \<noteq> ''WINDOW_DEACTIVATE''"
  by (auto simp: is_ignore_event_def ebind_def EventType_getitem_def split: if_splits)

lemma not_modifier_type:
  "is_modifier_event h ev = Inr False \<Longrightarrow> ev_type ev \<notin> set MODIFIER_EVENT_TYPES"
  by (auto simp: is_modifier_event_def ebind_def EventType_getitem_def split: if_splits)

lemma hold_after_update:
  assumes "ev_type ev \<in> set (map fst (event_type_enum_items h))"
    and "ev_type ev \<noteq> ''WINDOW_DEACTIVATE''"
  shows "hold_modifier_keys (fst (update_hold_modifier_keys h ev st)) = held_modifiers ev"
  using assms
  by (simp add: update_hold_modifier_keys_def EventType_getitem_def held_modifiers_def Let_def)

lemma press_step:
  assumes "running st" and "ev_type ev \<noteq> []"
    and ign: "is_ignore_event h ev (Some (c_prefs ctx)) = Inr False"
    and md: "is_modifier_event h ev = Inr False"
    and "ev_value ev = ''PRESS''"
  shows "event_history (fst (modal h ctx ev st)) =
     filter (\<lambda>item. c_time_prune ctx - fst item \<le> display_time (c_prefs ctx))
       (append_event (c_time ctx) (display_time (c_prefs ctx)) (ev_type ev) (held_modifiers ev)
          (event_history st))"
proof -
  let ?st2 = "fst (update_hold_modifier_keys h ev (update_area_spaces ctx st))"
  have cat: "ev_type ev \<in> set (map fst (event_type_enum_items h))"
    using ign by (rule not_ignored_in_catalogue)
  have hold: "hold_modifier_keys ?st2 = held_modifiers ev"
    using cat not_ignored_not_deactivate [OF ign] by (rule hold_after_update)
  have "ev_type ev \<notin> set MODIFIER_EVENT_TYPES" using md by (rule not_modifier_type)
  then have "ev_type ev \<notin> set (held_modifiers ev)"
    using held_modifiers_ok(1) [of ev] held_types_are_modifiers by blast
  then have cm: "current_mod_of (ev_type ev) ?st2 = held_modifiers ev"
    using hold by (simp add: current_mod_of_def)
  have eh: "event_history ?st2 = event_history st"
    by (simp add: update_hold_modifier_keys_frame update_area_spaces_frame)
  have "event_history (fst (modal_event_history h ctx ev (ev_type ev) ?st2)) =
     filter (\<lambda>item. c_time_prune ctx - fst item \<le> display_time (c_prefs ctx))
       (append_event (c_time ctx) (display_time (c_prefs ctx)) (ev_type ev) (held_modifiers ev)
          (event_history st))"
    using ign md assms(5) cm eh
    by (simp add: modal_event_history_def ebind_def removed_old_event_history_def Let_def)
  then show ?thesis
    using modal_event_history_running [OF assms(1,2) cat] by simp
qed









text \<open>
  C10. When every entry of the event history has a well-formed modifier snapshot, so has
  every entry after \<open>modal\<close> has processed an event: its snapshot holds only the left
  variants of shift, ctrl and alt and the OS key, without duplicates and without the event's
  own type. All of them are modifier types, so \<open>sorted_modifier_keys\<close> never fails its
  assertion on a stored snapshot. The history is empty when the operator starts.
\<close>

theorem modal_snapshots_are_modifiers:
  assumes "\<forall>item\<in>set (event_history st). snapshot_ok item"
  shows "\<forall>item\<in>set (event_history (fst (modal h ctx event st))).
           snapshot_ok item \<and>
           set (fst (snd (snd item))) \<subseteq> set MODIFIER_EVENT_TYPES \<and>
           sorted_modifier_keys h (fst (snd (snd item))) \<noteq> Inl AssertionError"
proof -
  let ?st2 = "fst (update_hold_modifier_keys h event (update_area_spaces ctx st))"
  have e2: "\<forall>item\<in>set (event_history ?st2). snapshot_ok item"
    using assms by (simp add: update_hold_modifier_keys_frame update_area_spaces_frame)
  have h2: "hold_modifier_keys ?st2 = [] \<or> hold_modifier_keys ?st2 = held_modifiers event"
    by (rule update_hold_modifier_keys_hold)
  have "\<forall>item\<in>set (event_history (fst (modal_event_history h ctx event (ev_type event) ?st2))).
          snapshot_ok item"
    using e2 h2 by (rule modal_event_history_ok)
  then have ok: "\<forall>item\<in>set (event_history (fst (modal h ctx event st))). snapshot_ok item"
    using assms modal_event_history_eq [of h ctx event st] by auto
  show ?thesis
  proof
    fix item assume "item \<in> set (event_history (fst (modal h ctx event st)))"
    then have o: "snapshot_ok item" using ok by simp
    obtain t et ms c where i: "item = (t, et, ms, c)" by (cases item) auto
    have "set ms \<subseteq> set MODIFIER_EVENT_TYPES" using o i by (auto dest: snapshot_ok_modifier)
    then show "snapshot_ok item \<and> set (fst (snd (snd item))) \<subseteq> set MODIFIER_EVENT_TYPES \<and>
           sorted_modifier_keys h (fst (snd (snd item))) \<noteq> Inl AssertionError"
      using o i by (simp add: sorted_no_assertion)
  qed
qed

lemma shift_A_facts:
  "ev_type shift_A \<noteq> []"
  "is_ignore_event sample_host shift_A (Some (c_prefs sample_context)) = Inr False"
  "is_modifier_event sample_host shift_A = Inr False"
  "ev_value shift_A = ''PRESS''"
  "held_modifiers shift_A = [''LEFT_SHIFT'']"
  "ev_type shift_A = ''A''"
  by (simp_all add: shift_A_def sample_defs is_ignore_event_def is_modifier_event_def ebind_def
        EventType_getitem_def MODIFIER_EVENT_TYPES_def startswith_def held_modifiers_def)

lemma modal_shift_A_history:
  "event_history (fst (modal sample_host sample_context shift_A sample_running))
     = [(100, ''A'', [''LEFT_SHIFT''], 1)]"
proof -
  have r: "running sample_running" and e: "event_history sample_running = []"
    by (simp_all add: sample_running_eq)
  show ?thesis
    by (subst press_step [OF r shift_A_facts(1,2,3,4)])
       (simp add: e append_event_def shift_A_facts(5,6), simp add: sample_defs)
qed

theorem modal_snapshots_are_modifiers_witness:
  "event_history sample_running = []
   \<and> event_history (fst (modal sample_host sample_context shift_A sample_running))
       = [(100, ''A'', [''LEFT_SHIFT''], 1)]
   \<and> snapshot_ok (100, ''A'', [''LEFT_SHIFT''], 1)
   \<and> set [''LEFT_SHIFT''] \<subseteq> set MODIFIER_EVENT_TYPES
   \<and> sorted_modifier_keys sample_host [''LEFT_SHIFT''] \<noteq> Inl AssertionError"
proof -
  have e: "event_history sample_running = []" by (simp add: sample_running_eq)
  then have a: "\<forall>item\<in>set (event_history sample_running). snapshot_ok item" by simp
  show ?thesis
    using e modal_shift_A_history
      modal_snapshots_are_modifiers [OF a, of sample_host sample_context shift_A]
    by simp
qed

subsection \<open>The redraw step\<close>

lemma fold_fold_concat: "fold (\<lambda>x. fold f (g x)) xs s = fold f (concat (map g xs)) s"
  by (induction xs arbitrary: s) simp_all

lemma redraw_prev_concat: "redraw_prev ctx st = fold untrack_region (screen_regions ctx) st"
  by (simp add: redraw_prev_def screen_regions_def fold_fold_concat)

lemma untrack_region_simps:
  "draw_regions_prev (untrack_region r st) = draw_regions_prev st - {r_ptr r}"
  "handlers (untrack_region r st) = handlers st"
  "host_log (untrack_region r st) =
     host_log st @ (if r_ptr r \<in> draw_regions_prev st then [RegionTagRedraw (r_ptr r)] else [])"
  by (auto simp: untrack_region_def)

lemma fold_untrack_prev:
  "draw_regions_prev (fold untrack_region rs st) = draw_regions_prev st - r_ptr ` set rs"
  by (induction rs arbitrary: st) (auto simp: untrack_region_simps)

lemma fold_untrack_log:
  "\<exists>tags. host_log (fold untrack_region rs st) = host_log st @ tags \<and>
      set tags = RegionTagRedraw ` (draw_regions_prev st \<inter> r_ptr ` set rs)"
proof (induction rs arbitrary: st)
  case Nil
  then show ?case by simp
next
  case (Cons r rs)
  let ?s = "untrack_region r st"
  obtain tags where t: "host_log (fold untrack_region rs ?s) = host_log ?s @ tags"
    "set tags = RegionTagRedraw ` (draw_regions_prev ?s \<inter> r_ptr ` set rs)"
    using Cons.IH [of ?s] by blast
  let ?first = "if r_ptr r \<in> draw_regions_prev st then [RegionTagRedraw (r_ptr r)] else []"
  have "host_log (fold untrack_region (r # rs) st) = host_log st @ (?first @ tags)"
    using t(1) by (simp add: untrack_region_simps)
  moreover have "set (?first @ tags)
      = RegionTagRedraw ` (draw_regions_prev st \<inter> r_ptr ` set (r # rs))"
    using t(2) by (auto simp: untrack_region_simps)
  ultimately show ?case by blast
qed

lemma track_region_simps:
  "draw_regions_prev (track_region sp r st) = insert (r_ptr r) (draw_regions_prev st)"
  "\<exists>pre. host_log (track_region sp r st) = host_log st @ pre @ [RegionTagRedraw (r_ptr r)] \<and>
      set pre \<subseteq> {DrawHandlerAdd sp (r_type r)}"
  by (auto simp: track_region_def Let_def)

lemma redraw_regions_prev_lower:
  "draw_regions_prev st \<subseteq> draw_regions_prev (fst (redraw_regions h regions st))"
  by (induction h regions st rule: redraw_regions.induct)
     (auto simp: track_region_simps(1) split: option.splits)

lemma redraw_regions_prev_upper:
  "draw_regions_prev (fst (redraw_regions h regions st))
     \<subseteq> draw_regions_prev st \<union> r_ptr ` snd ` set regions"
  by (induction h regions st rule: redraw_regions.induct)
     (auto simp: track_region_simps(1) split: option.splits)

lemma redraw_regions_log:
  "\<exists>more. host_log (fst (redraw_regions h regions st)) = host_log st @ more \<and>
      (\<forall>p. RegionTagRedraw p \<in> set more \<longrightarrow> p \<in> r_ptr ` snd ` set regions)"
proof (induction h regions st rule: redraw_regions.induct)
  case (1 h st)
  then show ?case by simp
next
  case (2 h area region regions st)
  show ?case
  proof (cases "SPACE_TYPES h (a_type area)")
    case None
    then show ?thesis by simp
  next
    case (Some sp)
    let ?s = "track_region sp region st"
    obtain more where m: "host_log (fst (redraw_regions h regions ?s)) = host_log ?s @ more"
      "\<forall>p. RegionTagRedraw p \<in> set more \<longrightarrow> p \<in> r_ptr ` snd ` set regions"
      using "2.IH" [OF Some] by blast
    obtain pre where pre: "host_log ?s = host_log st @ pre @ [RegionTagRedraw (r_ptr region)]"
      "set pre \<subseteq> {DrawHandlerAdd sp (r_type region)}"
      using track_region_simps(2) [of sp region st] by blast
    have "host_log (fst (redraw_regions h ((area, region) # regions) st))
        = host_log st @ (pre @ [RegionTagRedraw (r_ptr region)] @ more)"
      using Some m(1) pre(1) by simp
    moreover have "\<forall>p. RegionTagRedraw p \<in> set (pre @ [RegionTagRedraw (r_ptr region)] @ more)
        \<longrightarrow> p \<in> r_ptr ` snd ` set ((area, region) # regions)"
      using m(2) pre(2) by auto
    ultimately show ?thesis by blast
  qed
qed

text \<open>
  C7, as the code has it. Lines 799 to 819 of \<open>modal\<close>, run for the list \<open>regions\<close> that
  \<open>find_redraw_regions\<close> returned, whether or not they end in an exception: for every region
  of the screen whose pointer was tracked and which is not among \<open>regions\<close>, the pointer is
  no longer tracked and \<open>tag_redraw\<close> has been called on the region. A tracked pointer that
  belongs to no region of the screen stays tracked, and no \<open>tag_redraw\<close> is issued for it.
\<close>

theorem modal_redraw_untracks:
  assumes "modal_redraw h ctx regions st = (st', r)"
  shows "(\<forall>region\<in>set (screen_regions ctx).
            r_ptr region \<in> draw_regions_prev st \<and> r_ptr region \<notin> r_ptr ` snd ` set regions \<longrightarrow>
            r_ptr region \<notin> draw_regions_prev st' \<and>
            RegionTagRedraw (r_ptr region) \<in> set (new_log st st')) \<and>
         (\<forall>p\<in>draw_regions_prev st.
            p \<notin> r_ptr ` set (screen_regions ctx) \<and> p \<notin> r_ptr ` snd ` set regions \<longrightarrow>
            p \<in> draw_regions_prev st' \<and> RegionTagRedraw p \<notin> set (new_log st st'))"
proof -
  let ?s1 = "redraw_prev ctx st"
  let ?s2 = "fst (redraw_regions h regions ?s1)"
  have d': "draw_regions_prev st' = draw_regions_prev ?s2" and l': "host_log st' = host_log ?s2"
    using assms by (auto simp: modal_redraw_def split: prod.splits sum.splits)
  have d1: "draw_regions_prev ?s1 = draw_regions_prev st - r_ptr ` set (screen_regions ctx)"
    by (simp add: redraw_prev_concat fold_untrack_prev)
  obtain tags where t: "host_log ?s1 = host_log st @ tags"
    "set tags = RegionTagRedraw ` (draw_regions_prev st \<inter> r_ptr ` set (screen_regions ctx))"
    using fold_untrack_log [of "screen_regions ctx" st] by (auto simp: redraw_prev_concat)
  obtain more where m: "host_log ?s2 = host_log ?s1 @ more"
    "\<forall>p. RegionTagRedraw p \<in> set more \<longrightarrow> p \<in> r_ptr ` snd ` set regions"
    using redraw_regions_log [of h regions ?s1] by blast
  have nl: "new_log st st' = tags @ more" using l' t(1) m(1) by (simp add: new_log_def)
  have lo: "draw_regions_prev ?s1 \<subseteq> draw_regions_prev ?s2" by (rule redraw_regions_prev_lower)
  have up: "draw_regions_prev ?s2 \<subseteq> draw_regions_prev ?s1 \<union> r_ptr ` snd ` set regions"
    by (rule redraw_regions_prev_upper)
  show ?thesis
  proof (intro conjI ballI impI)
    fix region assume "region \<in> set (screen_regions ctx)"
      and "r_ptr region \<in> draw_regions_prev st \<and> r_ptr region \<notin> r_ptr ` snd ` set regions"
    then show "r_ptr region \<notin> draw_regions_prev st'"
      and "RegionTagRedraw (r_ptr region) \<in> set (new_log st st')"
      using d' d1 up nl t(2) by auto
  next
    fix p assume "p \<in> draw_regions_prev st"
      and "p \<notin> r_ptr ` set (screen_regions ctx) \<and> p \<notin> r_ptr ` snd ` set regions"
    then show "p \<in> draw_regions_prev st'" and "RegionTagRedraw p \<notin> set (new_log st st')"
      using d' d1 lo nl t(2) m(2) by auto
  qed
qed

lemma release_A_facts:
  "ev_type release_A = ''A''"
  "EventType_getitem sample_host ''A'' = Inr ''A''"
  "is_ignore_event sample_host release_A (Some sample_prefs) = Inr False"
  "is_modifier_event sample_host release_A = Inr False"
  "ev_value release_A \<noteq> ''PRESS''"
  by (simp_all add: release_A_def sample_defs is_ignore_event_def is_modifier_event_def ebind_def
        EventType_getitem_def MODIFIER_EVENT_TYPES_def startswith_def)

lemma modal_release:
  assumes "100 \<notin> D"
  shows "modal sample_host sample_context release_A (sample_running\<lparr>draw_regions_prev := D\<rparr>) =
     (\<lparr>hold_modifier_keys = [], event_history = [], operator_history = [], prev_time = 100,
       timers = [1 \<mapsto> Timer 1],
       handlers = [((''SpaceView3D'', ''WINDOW''), Handle ''SpaceView3D'' ''WINDOW'')],
       draw_regions_prev = insert 100 D,
       st_origin = \<lparr>o_window = Some 1, o_area = Some 10, o_space = Some 20,
                     o_region_type = ''WINDOW''\<rparr>,
       area_spaces = [10 \<mapsto> {20}], running = True,
       host_log = [EventTimerAdd 1, ModalHandlerAdd, AreaTagRedraw 10,
                   DrawHandlerAdd ''SpaceView3D'' ''WINDOW'', RegionTagRedraw 100]\<rparr>,
      Inr PASS_THROUGH)"
proof -
  have c: "c_prefs sample_context = sample_prefs" "c_time sample_context = 100"
    "c_operators sample_context = []" "c_screen_areas sample_context = [sample_area]"
    by (simp_all add: sample_context_def)
  let ?s0 = "sample_running\<lparr>draw_regions_prev := D\<rparr>"
  let ?s1 = "?s0\<lparr>area_spaces := [10 \<mapsto> {20}]\<rparr>"
  have s1: "update_area_spaces sample_context ?s0 = ?s1"
    by (simp add: update_area_spaces_def add_space_def c sample_area_def sample_running_eq)
  have s2: "update_hold_modifier_keys sample_host release_A ?s1 = (?s1, Inr ())"
    by (simp add: update_hold_modifier_keys_def release_A_facts(1,2) sample_running_eq)
       (simp add: release_A_def sample_event_def)
  have s3: "modal_event_history sample_host sample_context release_A ''A'' ?s1 = (?s1, Inr ())"
    by (simp add: modal_event_history_def c release_A_facts ebind_def
          removed_old_event_history_def sample_running_eq)
  have s4: "modal_operator_history sample_context ?s1 = (?s1, Inr ())"
    by (simp add: modal_operator_history_def c removed_old_operator_history_def
          sample_running_eq)
  have d: "sample_context\<lparr>c_time := c_time_draw sample_context\<rparr> = sample_context"
    by (simp add: sample_context_def)
  have calc: "calc_draw_area_rect sample_host sample_context ?s1 = Inr (Some (10, 10, 10, 20))"
    by (simp add: sample_running_eq calc_draw_area_rect_def get_origin_def
        sample_defs ebind_def removed_old_event_history_def)
  have find: "find_redraw_regions sample_host
        (sample_context\<lparr>c_time := c_time_draw sample_context\<rparr>) ?s1
      = Inr [(sample_area, sample_region)]"
    unfolding d
    by (simp add: find_redraw_regions_def calc ebind_def collect_regions_def region_overlaps_def c)
       (simp add: sample_area_def sample_region_def)
  have rp: "redraw_prev sample_context ?s1 = ?s1"
    using assms
    by (simp add: redraw_prev_def c untrack_region_def sample_area_def sample_region_def
          sample_running_eq)
  have s5: "modal_redraw_step sample_host sample_context release_A ?s1 =
     (\<lparr>hold_modifier_keys = [], event_history = [], operator_history = [], prev_time = 100,
       timers = [1 \<mapsto> Timer 1],
       handlers = [((''SpaceView3D'', ''WINDOW''), Handle ''SpaceView3D'' ''WINDOW'')],
       draw_regions_prev = insert 100 D,
       st_origin = \<lparr>o_window = Some 1, o_area = Some 10, o_space = Some 20,
                     o_region_type = ''WINDOW''\<rparr>,
       area_spaces = [10 \<mapsto> {20}], running = True,
       host_log = [EventTimerAdd 1, ModalHandlerAdd, AreaTagRedraw 10,
                   DrawHandlerAdd ''SpaceView3D'' ''WINDOW'', RegionTagRedraw 100]\<rparr>,
      Inr PASS_THROUGH)"
    by (simp add: modal_redraw_step_def c release_A_facts find modal_redraw_def rp)
       (simp add: track_region_def sample_area_def sample_region_def sample_host_def
          sample_running_eq c)
  have r: "running ?s0" by (simp add: sample_running_eq)
  show ?thesis
    by (simp add: modal_def r release_A_facts(1,2) s1 s2 s3 s4 s5)
qed

lemma tracked_state_eq:
  "tracked_state =
     \<lparr>hold_modifier_keys = [], event_history = [], operator_history = [], prev_time = 100,
       timers = [1 \<mapsto> Timer 1],
       handlers = [((''SpaceView3D'', ''WINDOW''), Handle ''SpaceView3D'' ''WINDOW'')],
       draw_regions_prev = {100, 7},
       st_origin = \<lparr>o_window = Some 1, o_area = Some 10, o_space = Some 20,
                     o_region_type = ''WINDOW''\<rparr>,
       area_spaces = [10 \<mapsto> {20}], running = True,
       host_log = [EventTimerAdd 1, ModalHandlerAdd, AreaTagRedraw 10,
                   DrawHandlerAdd ''SpaceView3D'' ''WINDOW'', RegionTagRedraw 100]\<rparr>"
  unfolding tracked_state_def stale_state_def by (subst modal_release) simp_all

lemma screen_regions_sample: "screen_regions sample_context = [sample_region]"
  by (simp add: screen_regions_def sample_context_def sample_area_def)

theorem modal_redraw_untracks_witness:
  "sample_region \<in> set (screen_regions sample_context)
   \<and> r_ptr sample_region \<in> draw_regions_prev tracked_state
   \<and> r_ptr sample_region \<notin> r_ptr ` snd ` set ([] :: (area \<times> region) list)
   \<and> r_ptr sample_region \<notin>
       draw_regions_prev (fst (modal_redraw sample_host sample_context [] tracked_state))
   \<and> RegionTagRedraw (r_ptr sample_region) \<in>
       set (new_log tracked_state (fst (modal_redraw sample_host sample_context [] tracked_state)))
   \<and> 7 \<in> draw_regions_prev tracked_state
   \<and> 7 \<notin> r_ptr ` set (screen_regions sample_context)
   \<and> 7 \<in> draw_regions_prev (fst (modal_redraw sample_host sample_context [] tracked_state))
   \<and> RegionTagRedraw 7 \<notin>
       set (new_log tracked_state (fst (modal_redraw sample_host sample_context [] tracked_state)))"
proof -
  have a: "sample_region \<in> set (screen_regions sample_context)"
    by (simp add: screen_regions_sample)
  have b: "r_ptr sample_region \<in> draw_regions_prev tracked_state"
    "7 \<in> draw_regions_prev tracked_state"
    by (simp_all add: tracked_state_eq sample_region_def)
  have c: "7 \<notin> r_ptr ` set (screen_regions sample_context)"
    by (simp add: screen_regions_sample sample_region_def)
  have e: "modal_redraw sample_host sample_context [] tracked_state =
      (fst (modal_redraw sample_host sample_context [] tracked_state),
       snd (modal_redraw sample_host sample_context [] tracked_state))"
    by simp
  show ?thesis
    using modal_redraw_untracks [OF e] a b c by auto
qed

text \<open>
  The claim as the specification states it fails for a region that no longer exists: the
  pointer 7 is tracked and belongs to no region of the screen; \<open>modal\<close> processes an event,
  redraws and returns, and the pointer is still tracked, with no \<open>tag_redraw\<close> for it.
\<close>

theorem modal_keeps_vanished_region:
  "7 \<in> draw_regions_prev stale_state
   \<and> 7 \<notin> r_ptr ` set (screen_regions sample_context)
   \<and> snd (modal sample_host sample_context release_A stale_state) = Inr PASS_THROUGH
   \<and> 7 \<in> draw_regions_prev (fst (modal sample_host sample_context release_A stale_state))
   \<and> RegionTagRedraw 7 \<notin>
       set (new_log stale_state (fst (modal sample_host sample_context release_A stale_state)))"
proof -
  have m: "snd (modal sample_host sample_context release_A stale_state) = Inr PASS_THROUGH"
    unfolding stale_state_def by (subst modal_release) simp_all
  have ts: "fst (modal sample_host sample_context release_A stale_state) = tracked_state"
    by (simp add: tracked_state_def)
  have a: "7 \<in> draw_regions_prev stale_state" by (simp add: stale_state_def)
  have b: "7 \<notin> r_ptr ` set (screen_regions sample_context)"
    by (simp add: screen_regions_sample sample_region_def)
  have c: "7 \<in> draw_regions_prev tracked_state" by (simp add: tracked_state_eq)
  have "new_log stale_state tracked_state
      = [DrawHandlerAdd ''SpaceView3D'' ''WINDOW'', RegionTagRedraw 100]"
    by (simp add: new_log_def tracked_state_eq stale_state_def sample_running_eq)
  then have d: "RegionTagRedraw 7 \<notin> set (new_log stale_state tracked_state)" by simp
  show ?thesis unfolding ts using m a b c d by blast
qed

subsection \<open>Switching the operator on and off\<close>






















end
